theory Spec2Isabelle
  imports Main "HOL-Library.Word"
begin

section \<open>The UEFORMAT importer: bytes, memory and files\<close>

text \<open>
  The reader of \<^verbatim>\<open>uef_model_reader.cc\<close> works on a \<^verbatim>\<open>char *Data\<close> and a cursor
  \<^verbatim>\<open>long &Offset\<close>. No reader receives the size of the buffer, so the model of
  \<^verbatim>\<open>Data\<close> is the memory as seen from that pointer: a byte for every (signed) index.
  The bytes of an allocated buffer sit at the indices \<open>0 ..< length buf\<close>; what lies around
  it is a parameter (\<open>ext\<close>). A read outside the buffer is undefined behaviour in C++:
  the program may be stopped by the system, or the \<^verbatim>\<open>memcpy\<close> may return the bytes
  that lie there. The model describes the second case only. It is faithful to the program
  for the reads that stay inside the buffer; a statement about a read that leaves the
  buffer holds under the assumption that the memory there can be read.

  Integers: a 32-bit \<^verbatim>\<open>int\<close> read from the bytes is the two's complement value of a
  \<open>32 word\<close>; a \<^verbatim>\<open>float\<close> is kept as its 32-bit pattern (it is only copied). The cursor
  (\<^verbatim>\<open>long\<close>) is an \<open>int\<close>: cursor arithmetic is assumed to stay in the range of
  \<^verbatim>\<open>long\<close>. Allocations of a non-negative size are assumed to succeed.

  The exceptions are those of the standard library: resizing a \<^verbatim>\<open>std::string\<close> or
  a \<^verbatim>\<open>std::vector\<close> to a negative \<^verbatim>\<open>int\<close> (converted to a huge \<^verbatim>\<open>size_t\<close>) throws
  \<^verbatim>\<open>std::length_error\<close>, and \<^verbatim>\<open>new char[n]\<close> with a negative \<open>n\<close> throws
  \<^verbatim>\<open>std::bad_alloc\<close>. Nothing in the importer catches them.
\<close>

type_synonym memory = "int \<Rightarrow> char"

datatype uef_exception = LengthError | BadAlloc

definition buffer_memory :: "(int \<Rightarrow> char) \<Rightarrow> char list \<Rightarrow> memory" where
  "buffer_memory ext buf =
     (\<lambda>i. if 0 \<le> i \<and> i < int (length buf) then buf ! nat i else ext i)"

definition bytes_at :: "memory \<Rightarrow> int \<Rightarrow> nat \<Rightarrow> char list" where
  "bytes_at Data Offset n = map (\<lambda>k. Data (Offset + int k)) [0..<n]"

definition le_nat :: "char list \<Rightarrow> nat" where
  "le_nat bs = foldr (\<lambda>c n. of_char c + 256 * n) bs 0"

definition int_of_bytes :: "char list \<Rightarrow> int" where
  "int_of_bytes bs = sint (word_of_nat (le_nat (take 4 bs)) :: 32 word)"

definition short_of_bytes :: "char list \<Rightarrow> int" where
  "short_of_bytes bs = sint (word_of_nat (le_nat (take 2 bs)) :: 16 word)"

type_synonym float = "32 word"
type_synonym float2 = "float \<times> float"
type_synonym float3 = "float \<times> float \<times> float"
type_synonym float4 = "float \<times> float \<times> float \<times> float"
type_synonym char4 = "char \<times> char \<times> char \<times> char"

definition float_of_bytes :: "char list \<Rightarrow> float" where
  "float_of_bytes bs = word_of_nat (le_nat (take 4 bs))"

definition float2_of_bytes :: "char list \<Rightarrow> float2" where
  "float2_of_bytes bs = (float_of_bytes bs, float_of_bytes (drop 4 bs))"

definition float3_of_bytes :: "char list \<Rightarrow> float3" where
  "float3_of_bytes bs =
     (float_of_bytes bs, float_of_bytes (drop 4 bs), float_of_bytes (drop 8 bs))"

definition float4_of_bytes :: "char list \<Rightarrow> float4" where
  "float4_of_bytes bs =
     (float_of_bytes bs, float_of_bytes (drop 4 bs), float_of_bytes (drop 8 bs),
      float_of_bytes (drop 12 bs))"

definition char4_of_bytes :: "char list \<Rightarrow> char4" where
  "char4_of_bytes bs = (bs ! 0, bs ! 1, bs ! 2, bs ! 3)"

text \<open>
  \<open>elements sz f bs\<close>: the bytes copied by one \<^verbatim>\<open>memcpy\<close> into a vector of elements of
  \<open>sz\<close> bytes each, every element decoded by \<open>f\<close>.
\<close>

definition elements :: "nat \<Rightarrow> (char list \<Rightarrow> 'a) \<Rightarrow> char list \<Rightarrow> 'a list" where
  "elements sz f bs = map (\<lambda>k. f (take sz (drop (k * sz) bs))) [0..<length bs div sz]"

subsection \<open>Primitive readers over memory\<close>

text \<open>
  \<^verbatim>\<open>ReadString(std::string &str, char *Data, long &Offset)\<close>: the length is read from
  the four bytes at the cursor, the string is resized to it and that many bytes are copied.
  There is no test against the size of the buffer.
\<close>

definition ReadString :: "memory \<Rightarrow> int \<Rightarrow> uef_exception + string \<times> int" where
  "ReadString Data Offset =
     (let len = int_of_bytes (bytes_at Data Offset 4);
          Offset1 = Offset + 4
      in if len < 0 then Inl LengthError
         else Inr (bytes_at Data Offset1 (nat len), Offset1 + len))"

text \<open>
  \<^verbatim>\<open>ReadStruct(char *Data, long &Offset, void *Struct, long Size)\<close>: the bytes copied
  into \<^verbatim>\<open>Struct\<close> and the new cursor. Every call of the source passes a size that is not
  negative: 4, or a count times an element size after the \<^verbatim>\<open>resize\<close> to that count.
\<close>

definition ReadStruct :: "memory \<Rightarrow> int \<Rightarrow> int \<Rightarrow> char list \<times> int" where
  "ReadStruct Data Offset Size = (bytes_at Data Offset (nat Size), Offset + Size)"

subsection \<open>Primitive readers over a file\<close>

text \<open>
  A \<^verbatim>\<open>FILE *\<close> opened for reading is its contents and a position. \<^verbatim>\<open>fread(dst, n, 1, File)\<close>
  copies the bytes that are left, at most \<open>n\<close>, over the start of \<open>dst\<close>, and leaves the
  rest of \<open>dst\<close> as it was; no caller looks at its return value. The bytes of an object
  that was never initialised come from a parameter \<open>indet\<close>.
\<close>

record FILE =
  contents :: "char list"
  position :: nat

definition uninitialised :: "(nat \<Rightarrow> char) \<Rightarrow> nat \<Rightarrow> char list" where
  "uninitialised indet n = map indet [0..<n]"

definition fread :: "char list \<Rightarrow> nat \<Rightarrow> FILE \<Rightarrow> char list \<times> FILE" where
  "fread dst n File =
     (let got = take n (drop (position File) (contents File))
      in (got @ drop (length got) dst, File\<lparr>position := position File + length got\<rparr>))"

text \<open>\<^verbatim>\<open>ReadString(std::string &str, FILE *File)\<close>, with \<^verbatim>\<open>int len\<close> uninitialised.\<close>

definition ReadString_File :: "(nat \<Rightarrow> char) \<Rightarrow> FILE \<Rightarrow> uef_exception + string \<times> FILE" where
  "ReadString_File indet File =
     (let (lenb, File1) = fread (uninitialised indet 4) 4 File;
          len = int_of_bytes lenb
      in if len < 0 then Inl LengthError
         else Inr (fread (replicate (nat len) (CHR 0x00)) (nat len) File1))"

text \<open>\<^verbatim>\<open>ReadString(std::string &str, FILE *File, size_t len)\<close>.\<close>

definition ReadString_File_len :: "FILE \<Rightarrow> nat \<Rightarrow> string \<times> FILE" where
  "ReadString_File_len File len = fread (replicate len (CHR 0x00)) len File"

text \<open>\<^verbatim>\<open>ReadStruct(FILE *File, void *Struct, int Size)\<close>; \<open>dst\<close> is \<^verbatim>\<open>Struct\<close> before the call.\<close>

definition ReadStruct_File :: "char list \<Rightarrow> FILE \<Rightarrow> nat \<Rightarrow> char list \<times> FILE" where
  "ReadStruct_File dst File Size = fread dst Size File"

section \<open>The data model of \<^verbatim>\<open>uef_model_reader.hh\<close>\<close>

text \<open>
  The two fields of \<^verbatim>\<open>FVertexColorChunk\<close> are \<^verbatim>\<open>Name\<close> and \<^verbatim>\<open>Data\<close> in the source;
  they are \<open>ColorName\<close> and \<open>ColorData\<close> here, apart from the \<^verbatim>\<open>Name\<close> of a material.
  \<^verbatim>\<open>FWeightChunk\<close> is 12 bytes (a \<^verbatim>\<open>short\<close>, two bytes of padding, an \<^verbatim>\<open>int\<close>, a
  \<^verbatim>\<open>float\<close>) and \<^verbatim>\<open>FMorphTargetDataChunk\<close> is 28 bytes.
\<close>

record FVertexColorChunk =
  ColorName :: string
  ColorData :: "char4 list"

record FWeightChunk =
  WeightBoneIndex :: int
  WeightVertexIndex :: int
  WeightAmount :: float

record FMaterialChunk =
  Name :: string
  FirstIndex :: int
  NumFaces :: int

record FMorphTargetDataChunk =
  MorphPosition :: float3
  MorphNormals :: float3
  MorphVertexIndex :: int

record FMorphTargetChunk =
  MorphName :: string
  MorphDeltas :: "FMorphTargetDataChunk list"

record FUEFormatHeader =
  Identifier :: string
  FileVersionBytes :: char
  ObjectName :: string
  IsCompressed :: bool
  CompressionType :: string
  CompressedSize :: int
  UncompressedSize :: int

record FLODData =
  LODName :: string
  Vertices :: "float3 list"
  Indices :: "int list"
  Normals :: "float4 list"
  Tangents :: "float3 list"
  VertexColors :: "FVertexColorChunk list"
  TextureCoordinates :: "float2 list list"
  Materials :: "FMaterialChunk list"
  Weights :: "FWeightChunk list"
  Morphs :: "FMorphTargetChunk list"

record FUEModelData =
  Header :: FUEFormatHeader
  LODs :: "FLODData list"

definition UEF_MAGIC :: string where
  "UEF_MAGIC = ''UEFORMAT''"

definition FWeightChunk_of_bytes :: "char list \<Rightarrow> FWeightChunk" where
  "FWeightChunk_of_bytes bs =
     \<lparr>WeightBoneIndex = short_of_bytes bs,
      WeightVertexIndex = int_of_bytes (drop 4 bs),
      WeightAmount = float_of_bytes (drop 8 bs)\<rparr>"

definition FMorphTargetDataChunk_of_bytes :: "char list \<Rightarrow> FMorphTargetDataChunk" where
  "FMorphTargetDataChunk_of_bytes bs =
     \<lparr>MorphPosition = float3_of_bytes bs,
      MorphNormals = float3_of_bytes (drop 12 bs),
      MorphVertexIndex = int_of_bytes (drop 24 bs)\<rparr>"

text \<open>A value-initialised object: empty strings and vectors, zero scalars.\<close>

definition new_FLODData :: FLODData where
  "new_FLODData =
     \<lparr>LODName = [], Vertices = [], Indices = [], Normals = [], Tangents = [],
      VertexColors = [], TextureCoordinates = [], Materials = [], Weights = [], Morphs = []\<rparr>"

definition new_FUEModelData :: FUEModelData where
  "new_FUEModelData =
     \<lparr>Header = \<lparr>Identifier = [], FileVersionBytes = CHR 0x00, ObjectName = [],
                 IsCompressed = False, CompressionType = [], CompressedSize = 0,
                 UncompressedSize = 0\<rparr>,
      LODs = []\<rparr>"

text \<open>\<^verbatim>\<open>std::vector::resize(n)\<close> for \<open>n \<ge> 0\<close>: truncate, or pad with fresh elements.\<close>

definition resize :: "'a \<Rightarrow> 'a list \<Rightarrow> nat \<Rightarrow> 'a list" where
  "resize fresh xs n = take n xs @ replicate (n - length xs) fresh"

section \<open>The chunk decoder (the body of the \<^verbatim>\<open>while\<close> loop of \<^verbatim>\<open>ReadLods\<close>)\<close>

text \<open>
  The loops over the entries of a nested chunk. Each runs \<open>Num\<close> times; the entries read
  replace the whole vector, which was resized to \<open>Num\<close> before.
\<close>

fun ReadVertexColors ::
  "memory \<Rightarrow> nat \<Rightarrow> int \<Rightarrow> uef_exception + FVertexColorChunk list \<times> int" where
  "ReadVertexColors Data 0 LodsOffset = Inr ([], LodsOffset)"
| "ReadVertexColors Data (Suc n) LodsOffset =
     (case ReadString Data LodsOffset of
        Inl e \<Rightarrow> Inl e
      | Inr (name, off1) \<Rightarrow>
          (let (b, off2) = ReadStruct Data off1 4;
               vtxArraySize = int_of_bytes b
           in if vtxArraySize < 0 then Inl LengthError
              else
                (let (d, off3) = ReadStruct Data off2 (vtxArraySize * 4);
                     vtxColor = \<lparr>ColorName = name, ColorData = elements 4 char4_of_bytes d\<rparr>
                 in case ReadVertexColors Data n off3 of
                      Inl e \<Rightarrow> Inl e
                    | Inr (rest, off4) \<Rightarrow> Inr (vtxColor # rest, off4))))"

fun ReadTexCoords :: "memory \<Rightarrow> nat \<Rightarrow> int \<Rightarrow> uef_exception + float2 list list \<times> int" where
  "ReadTexCoords Data 0 LodsOffset = Inr ([], LodsOffset)"
| "ReadTexCoords Data (Suc n) LodsOffset =
     (let (b, off1) = ReadStruct Data LodsOffset 4;
          vtxArraySize = int_of_bytes b
      in if vtxArraySize < 0 then Inl LengthError
         else
           (let (d, off2) = ReadStruct Data off1 (vtxArraySize * 8)
            in case ReadTexCoords Data n off2 of
                 Inl e \<Rightarrow> Inl e
               | Inr (rest, off3) \<Rightarrow> Inr (elements 8 float2_of_bytes d # rest, off3)))"

fun ReadMaterials :: "memory \<Rightarrow> nat \<Rightarrow> int \<Rightarrow> uef_exception + FMaterialChunk list \<times> int" where
  "ReadMaterials Data 0 LodsOffset = Inr ([], LodsOffset)"
| "ReadMaterials Data (Suc n) LodsOffset =
     (case ReadString Data LodsOffset of
        Inl e \<Rightarrow> Inl e
      | Inr (name, off1) \<Rightarrow>
          (let (b1, off2) = ReadStruct Data off1 4;
               (b2, off3) = ReadStruct Data off2 4;
               mat = \<lparr>Name = name, FirstIndex = int_of_bytes b1, NumFaces = int_of_bytes b2\<rparr>
           in case ReadMaterials Data n off3 of
                Inl e \<Rightarrow> Inl e
              | Inr (rest, off4) \<Rightarrow> Inr (mat # rest, off4)))"

fun ReadMorphTargets ::
  "memory \<Rightarrow> nat \<Rightarrow> int \<Rightarrow> uef_exception + FMorphTargetChunk list \<times> int" where
  "ReadMorphTargets Data 0 LodsOffset = Inr ([], LodsOffset)"
| "ReadMorphTargets Data (Suc n) LodsOffset =
     (case ReadString Data LodsOffset of
        Inl e \<Rightarrow> Inl e
      | Inr (name, off1) \<Rightarrow>
          (let (b, off2) = ReadStruct Data off1 4;
               NumDeltas = int_of_bytes b
           in if NumDeltas < 0 then Inl LengthError
              else
                (let (d, off3) = ReadStruct Data off2 (NumDeltas * 28);
                     morph = \<lparr>MorphName = name,
                              MorphDeltas = elements 28 FMorphTargetDataChunk_of_bytes d\<rparr>
                 in case ReadMorphTargets Data n off3 of
                      Inl e \<Rightarrow> Inl e
                    | Inr (rest, off4) \<Rightarrow> Inr (morph # rest, off4))))"

text \<open>
  The dispatch on the type tag, with the cursor at the start of the payload. Every
  \<^verbatim>\<open>resize(Num)\<close> comes first and throws for a negative \<open>Num\<close>.
\<close>

definition ReadChunkPayload ::
  "string \<Rightarrow> int \<Rightarrow> int \<Rightarrow> memory \<Rightarrow> FLODData \<Rightarrow> int \<Rightarrow> uef_exception + FLODData \<times> int" where
  "ReadChunkPayload HeaderType Num DataSize Data lod LodsOffset =
     (if HeaderType = ''VERTICES'' then
        (if Num < 0 then Inl LengthError
         else let (b, off) = ReadStruct Data LodsOffset (Num * 12)
              in Inr (lod\<lparr>Vertices := elements 12 float3_of_bytes b\<rparr>, off))
      else if HeaderType = ''INDICES'' then
        (if Num < 0 then Inl LengthError
         else let (b, off) = ReadStruct Data LodsOffset (Num * 4)
              in Inr (lod\<lparr>Indices := elements 4 int_of_bytes b\<rparr>, off))
      else if HeaderType = ''NORMALS'' then
        (if Num < 0 then Inl LengthError
         else let (b, off) = ReadStruct Data LodsOffset (Num * 16)
              in Inr (lod\<lparr>Normals := elements 16 float4_of_bytes b\<rparr>, off))
      else if HeaderType = ''TANGENTS'' then
        Inr (lod, LodsOffset + DataSize)
      else if HeaderType = ''VERTEXCOLORS'' then
        (if Num < 0 then Inl LengthError
         else case ReadVertexColors Data (nat Num) LodsOffset of
                Inl e \<Rightarrow> Inl e
              | Inr (cs, off) \<Rightarrow> Inr (lod\<lparr>VertexColors := cs\<rparr>, off))
      else if HeaderType = ''TEXCOORDS'' then
        (if Num < 0 then Inl LengthError
         else case ReadTexCoords Data (nat Num) LodsOffset of
                Inl e \<Rightarrow> Inl e
              | Inr (ts, off) \<Rightarrow> Inr (lod\<lparr>TextureCoordinates := ts\<rparr>, off))
      else if HeaderType = ''MATERIALS'' then
        (if Num < 0 then Inl LengthError
         else case ReadMaterials Data (nat Num) LodsOffset of
                Inl e \<Rightarrow> Inl e
              | Inr (ms, off) \<Rightarrow> Inr (lod\<lparr>Materials := ms\<rparr>, off))
      else if HeaderType = ''WEIGHTS'' then
        (if Num < 0 then Inl LengthError
         else let (b, off) = ReadStruct Data LodsOffset (Num * 12)
              in Inr (lod\<lparr>Weights := elements 12 FWeightChunk_of_bytes b\<rparr>, off))
      else if HeaderType = ''MORPHTARGETS'' then
        (if Num < 0 then Inl LengthError
         else case ReadMorphTargets Data (nat Num) LodsOffset of
                Inl e \<Rightarrow> Inl e
              | Inr (ms, off) \<Rightarrow> Inr (lod\<lparr>Morphs := ms\<rparr>, off))
      else Inr (lod, LodsOffset + DataSize))"

text \<open>One chunk: the tag, \<^verbatim>\<open>Num\<close>, \<^verbatim>\<open>DataSize\<close>, then the payload.\<close>

definition ReadChunk :: "memory \<Rightarrow> FLODData \<Rightarrow> int \<Rightarrow> uef_exception + FLODData \<times> int" where
  "ReadChunk Data lod LodsOffset =
     (case ReadString Data LodsOffset of
        Inl e \<Rightarrow> Inl e
      | Inr (HeaderType, off1) \<Rightarrow>
          (let (b1, off2) = ReadStruct Data off1 4;
               Num = int_of_bytes b1;
               (b2, off3) = ReadStruct Data off2 4;
               DataSize = int_of_bytes b2
           in ReadChunkPayload HeaderType Num DataSize Data lod off3))"

section \<open>The LOD assembler and the model decoder\<close>

text \<open>
  The \<^verbatim>\<open>while\<close> loops may run for ever (a skipped chunk or section with a negative
  \<^verbatim>\<open>DataSize\<close> moves the cursor backwards), so each loop is a partial function whose value
  \<open>None\<close> means that it does not return. \<open>Some (Inl e)\<close> is an exception that leaves the
  importer, \<open>Some (Inr r)\<close> a normal return.
\<close>

partial_function (option) ReadLodChunks ::
  "memory \<Rightarrow> FLODData \<Rightarrow> int \<Rightarrow> int \<Rightarrow> int \<Rightarrow> (uef_exception + FLODData) option" where
  "ReadLodChunks Data lod LodsOffset Offset LodsSize =
     (if LodsOffset < Offset + LodsSize then
        (case ReadChunk Data lod LodsOffset of
           Inl e \<Rightarrow> Some (Inl e)
         | Inr (lod1, LodsOffset1) \<Rightarrow> ReadLodChunks Data lod1 LodsOffset1 Offset LodsSize)
      else Some (Inr lod))"

text \<open>
  One round of the \<^verbatim>\<open>for\<close> loop of \<^verbatim>\<open>ReadLods\<close>: the name, \<^verbatim>\<open>LodsSize\<close>, the chunks,
  and \<^verbatim>\<open>Offset += LodsSize\<close>.
\<close>

definition ReadLod ::
  "memory \<Rightarrow> FLODData \<Rightarrow> int \<Rightarrow> (uef_exception + FLODData \<times> int) option" where
  "ReadLod Data lod Offset =
     (case ReadString Data Offset of
        Inl e \<Rightarrow> Some (Inl e)
      | Inr (name, off1) \<Rightarrow>
          (let (b, off2) = ReadStruct Data off1 4;
               LodsSize = int_of_bytes b
           in case ReadLodChunks Data (lod\<lparr>LODName := name\<rparr>) off2 off2 LodsSize of
                None \<Rightarrow> None
              | Some (Inl e) \<Rightarrow> Some (Inl e)
              | Some (Inr lod1) \<Rightarrow> Some (Inr (lod1, off2 + LodsSize))))"

partial_function (option) ReadLods_loop ::
  "memory \<Rightarrow> FLODData list \<Rightarrow> int \<Rightarrow> int \<Rightarrow> int \<Rightarrow>
   (uef_exception + FLODData list \<times> int) option" where
  "ReadLods_loop Data lods i numLods Offset =
     (if i < numLods then
        (case ReadLod Data (lods ! nat i) Offset of
           None \<Rightarrow> None
         | Some (Inl e) \<Rightarrow> Some (Inl e)
         | Some (Inr (lod, Offset1)) \<Rightarrow>
             ReadLods_loop Data (lods[nat i := lod]) (i + 1) numLods Offset1)
      else Some (Inr (lods, Offset)))"

text \<open>
  \<^verbatim>\<open>ReadLods\<close>: \<^verbatim>\<open>lods.resize(numLods)\<close> keeps the LODs of an earlier section, and the
  loop then writes into them.
\<close>

definition ReadLods ::
  "memory \<Rightarrow> FLODData list \<Rightarrow> int \<Rightarrow> int \<Rightarrow> (uef_exception + FLODData list \<times> int) option" where
  "ReadLods DecompressedData lods numLods Offset =
     (if numLods < 0 then Some (Inl LengthError)
      else ReadLods_loop DecompressedData (resize new_FLODData lods (nat numLods)) 0 numLods Offset)"

partial_function (option) ReadModel ::
  "memory \<Rightarrow> FUEModelData \<Rightarrow> int \<Rightarrow> int \<Rightarrow> (uef_exception + FUEModelData \<times> int) option" where
  "ReadModel DecompressedData Data Offset DecompressedSize =
     (if Offset < DecompressedSize then
        (case ReadString DecompressedData Offset of
           Inl e \<Rightarrow> Some (Inl e)
         | Inr (SectionType, off1) \<Rightarrow>
             (let (b1, off2) = ReadStruct DecompressedData off1 4;
                  Num = int_of_bytes b1;
                  (b2, off3) = ReadStruct DecompressedData off2 4;
                  DataSize = int_of_bytes b2
              in if SectionType = ''LODS'' then
                   (case ReadLods DecompressedData (LODs Data) Num off3 of
                      None \<Rightarrow> None
                    | Some (Inl e) \<Rightarrow> Some (Inl e)
                    | Some (Inr (lods, off4)) \<Rightarrow>
                        ReadModel DecompressedData (Data\<lparr>LODs := lods\<rparr>) off4 DecompressedSize)
                 else ReadModel DecompressedData Data (off3 + DataSize) DecompressedSize))
      else Some (Inr (Data, Offset)))"

section \<open>The container reader\<close>

text \<open>
  What the reader takes from outside: the decompression service (for a destination
  capacity and the compressed bytes, the \<^verbatim>\<open>size_t\<close> it returns and the bytes it wrote at
  the start of the destination), the bytes of uninitialised objects, the memory around
  the payload buffer, and the files that \<^verbatim>\<open>fopen_s\<close> can open.
\<close>

record environment =
  ZSTD_decompress :: "nat \<Rightarrow> char list \<Rightarrow> nat \<times> char list"
  indeterminate :: "nat \<Rightarrow> char"
  outside :: "int \<Rightarrow> char"
  fopen_s :: "string \<Rightarrow> char list option"

text \<open>A write of \<open>src\<close> over the start of the buffer \<open>dst\<close>.\<close>

definition overwrite :: "char list \<Rightarrow> char list \<Rightarrow> char list" where
  "overwrite dst src = take (length dst) src @ drop (length src) dst"

text \<open>
  The value of the \<^verbatim>\<open>char\<close> version byte in the comparison (a signed \<^verbatim>\<open>char\<close>, promoted
  to \<^verbatim>\<open>int\<close>), and the test of the source as it is written,
  \<^verbatim>\<open>!(Header.FileVersionBytes <= 5 || Header.FileVersionBytes > 3)\<close>.
\<close>

definition version_value :: "char \<Rightarrow> int" where
  "version_value c = sint (word_of_nat (of_char c) :: 8 word)"

definition version_rejected :: "char \<Rightarrow> bool" where
  "version_rejected c = (\<not> (version_value c \<le> 5 \<or> version_value c > 3))"

text \<open>
  The result of \<^verbatim>\<open>ReadUEFModelData\<close>: the lines written by \<^verbatim>\<open>printf\<close> and the pointer
  returned, \<open>None\<close> for \<^verbatim>\<open>nullptr\<close>. (The timings written to \<^verbatim>\<open>std::cout\<close> are left out.)
\<close>

type_synonym uef_result = "(uef_exception + string list \<times> FUEModelData option) option"

text \<open>The part of \<^verbatim>\<open>ReadUEFModelData(FILE *)\<close> after \<^verbatim>\<open>Data->Header = Header\<close>.\<close>

definition ReadPayload :: "environment \<Rightarrow> FUEFormatHeader \<Rightarrow> FILE \<Rightarrow> uef_result" where
  "ReadPayload env Hdr File =
     (let Data = new_FUEModelData\<lparr>Header := Hdr\<rparr>;
          decode = (\<lambda>buf DecompressedSize.
            if Identifier Hdr = ''UEMODEL'' then
              (case ReadModel (buffer_memory (outside env) buf) Data 0 DecompressedSize of
                 None \<Rightarrow> None
               | Some (Inl e) \<Rightarrow> Some (Inl e)
               | Some (Inr (Data1, Offset)) \<Rightarrow> Some (Inr ([], Some Data1)))
            else Some (Inr ([], Some Data)))
      in if IsCompressed Hdr then
           (if UncompressedSize Hdr < 0 then Some (Inl BadAlloc)
            else if CompressedSize Hdr < 0 then Some (Inl BadAlloc)
            else
              (let DecompressedData = uninitialised (indeterminate env) (nat (UncompressedSize Hdr));
                   (CompressedData, File1) =
                     ReadStruct_File (uninitialised (indeterminate env) (nat (CompressedSize Hdr)))
                       File (nat (CompressedSize Hdr))
               in if CompressionType Hdr = ''ZSTD'' then
                    (let (ret, written) =
                           ZSTD_decompress env (nat (UncompressedSize Hdr)) CompressedData
                     in if ret \<noteq> nat (UncompressedSize Hdr)
                        then Some (Inr ([''Failed to decompress data''], None))
                        else decode (overwrite DecompressedData written) (UncompressedSize Hdr))
                  else Some (Inr ([''Unsupported compression type''], None))))
         else
           (let CurrentPos = int (position File);
                EndPos = int (length (contents File));
                DecompressedSize = EndPos - CurrentPos
            in if DecompressedSize < 0 then Some (Inl BadAlloc)
               else
                 (let (DecompressedData, File1) =
                        ReadStruct_File (uninitialised (indeterminate env) (nat DecompressedSize))
                          File (nat DecompressedSize)
                  in decode DecompressedData DecompressedSize)))"

text \<open>\<^verbatim>\<open>FUEModelData* ReadUEFModelData(FILE *File)\<close>.\<close>

definition ReadUEFModelData_File :: "environment \<Rightarrow> FILE \<Rightarrow> uef_result" where
  "ReadUEFModelData_File env File =
     (let Data = new_FUEModelData;
          (Magic, File1) = ReadString_File_len File (length UEF_MAGIC)
      in if Magic \<noteq> UEF_MAGIC then Some (Inr ([], Some Data))
         else
           (case ReadString_File (indeterminate env) File1 of
              Inl e \<Rightarrow> Some (Inl e)
            | Inr (Ident, File2) \<Rightarrow>
                (let (vb, File3) = fread (uninitialised (indeterminate env) 1) 1 File2
                 in if version_rejected (hd vb)
                    then Some (Inr ([''too old or too new file version''], None))
                    else
                      (case ReadString_File (indeterminate env) File3 of
                         Inl e \<Rightarrow> Some (Inl e)
                       | Inr (ObjName, File4) \<Rightarrow>
                           (let (cb, File5) = fread (uninitialised (indeterminate env) 1) 1 File4;
                                Hdr0 = \<lparr>Identifier = Ident, FileVersionBytes = hd vb,
                                         ObjectName = ObjName, IsCompressed = (hd cb \<noteq> CHR 0x00),
                                         CompressionType = [],
                                         CompressedSize =
                                           int_of_bytes (uninitialised (indeterminate env) 4),
                                         UncompressedSize =
                                           int_of_bytes (uninitialised (indeterminate env) 4)\<rparr>
                            in if IsCompressed Hdr0 then
                                 (case ReadString_File (indeterminate env) File5 of
                                    Inl e \<Rightarrow> Some (Inl e)
                                  | Inr (CType, File6) \<Rightarrow>
                                      (let (ub, File7) =
                                             ReadStruct_File (uninitialised (indeterminate env) 4)
                                               File6 4;
                                           (zb, File8) =
                                             ReadStruct_File (uninitialised (indeterminate env) 4)
                                               File7 4
                                       in ReadPayload env
                                            (Hdr0\<lparr>CompressionType := CType,
                                                  CompressedSize := int_of_bytes zb,
                                                  UncompressedSize := int_of_bytes ub\<rparr>)
                                            File8))
                               else ReadPayload env Hdr0 File5)))))"


section \<open>The geometry builder: material indices of the faces\<close>

text \<open>
  The inner loop of \<^verbatim>\<open>BuildUEModel\<close> over \<^verbatim>\<open>lod.Materials\<close>, from index \<open>i\<close> on (the list
  is \<^verbatim>\<open>Materials[i], Materials[i+1], ...\<close>): the value of \<^verbatim>\<open>mat_index\<close>, which starts at 0.
\<close>

fun mat_index_from :: "FMaterialChunk list \<Rightarrow> int \<Rightarrow> int \<Rightarrow> int" where
  "mat_index_from [] i face_idx = 0"
| "mat_index_from (m # ms) i face_idx =
     (if FirstIndex m > face_idx then i - 1 else mat_index_from ms (i + 1) face_idx)"

text \<open>
  The \<^verbatim>\<open>material_index\<close> attribute written by \<^verbatim>\<open>BuildUEModel\<close> for one LOD; the mesh
  has \<^verbatim>\<open>lod.Indices.size() / 3\<close> faces.
\<close>

definition material_indices :: "FLODData \<Rightarrow> int list" where
  "material_indices lod =
     map (\<lambda>face_idx. mat_index_from (Materials lod) 0 (int face_idx))
       [0..<length (Indices lod) div 3]"

section \<open>The wire format, for stating properties of the readers\<close>

text \<open>
  The tags that \<^verbatim>\<open>ReadLods\<close> decodes into a field of the LOD. \<^verbatim>\<open>TANGENTS\<close> has a branch
  of its own in the source but is skipped like an unknown tag, so it is not in the list.
\<close>

definition recognised_tags :: "string list" where
  "recognised_tags =
     [''VERTICES'', ''INDICES'', ''NORMALS'', ''VERTEXCOLORS'', ''TEXCOORDS'', ''MATERIALS'',
      ''WEIGHTS'', ''MORPHTARGETS'']"

text \<open>
  How a file is laid out: a little-endian 32-bit integer, a string with its length in
  front, a chunk, an LOD record, a section, and the two shapes of a whole file.
\<close>

definition enc_int :: "int \<Rightarrow> char list" where
  "enc_int x = [char_of x, char_of (x div 256), char_of (x div 65536), char_of (x div 16777216)]"

definition enc_string :: "string \<Rightarrow> char list" where
  "enc_string s = enc_int (int (length s)) @ s"

definition chunk_bytes :: "string \<Rightarrow> int \<Rightarrow> int \<Rightarrow> char list \<Rightarrow> char list" where
  "chunk_bytes tag Num DataSize payload = enc_string tag @ enc_int Num @ enc_int DataSize @ payload"

definition lod_bytes :: "string \<Rightarrow> int \<Rightarrow> char list \<Rightarrow> char list" where
  "lod_bytes name LodsSize chunks = enc_string name @ enc_int LodsSize @ chunks"

definition section_bytes :: "string \<Rightarrow> int \<Rightarrow> int \<Rightarrow> char list \<Rightarrow> char list" where
  "section_bytes typ Num DataSize body = enc_string typ @ enc_int Num @ enc_int DataSize @ body"

definition uncompressed_file :: "string \<Rightarrow> char \<Rightarrow> string \<Rightarrow> char list \<Rightarrow> char list" where
  "uncompressed_file ident ver name payload =
     ''UEFORMAT'' @ enc_string ident @ [ver] @ enc_string name @ [CHR 0x00] @ payload"

definition compressed_file ::
  "string \<Rightarrow> char \<Rightarrow> string \<Rightarrow> char \<Rightarrow> string \<Rightarrow> int \<Rightarrow> int \<Rightarrow> char list \<Rightarrow> char list" where
  "compressed_file ident ver name flag ctype usize csize rest =
     ''UEFORMAT'' @ enc_string ident @ [ver] @ enc_string name @ [flag] @
     enc_string ctype @ enc_int usize @ enc_int csize @ rest"

text \<open>An environment and inputs for the concrete runs below.\<close>

definition example_env :: environment where
  "example_env =
     \<lparr>ZSTD_decompress = (\<lambda>cap src. (90, replicate 90 (CHR ''z''))),
      indeterminate = (\<lambda>k. CHR 0xCD),
      outside = (\<lambda>i. CHR ''x''),
      fopen_s = (\<lambda>path. None)\<rparr>"


definition two_materials_lod :: FLODData where
  "two_materials_lod =
     new_FLODData
       \<lparr>Indices := replicate 24 0,
        Materials := [\<lparr>Name = ''M0'', FirstIndex = 0, NumFaces = 5\<rparr>,
                      \<lparr>Name = ''M1'', FirstIndex = 5, NumFaces = 3\<rparr>]\<rparr>"

text \<open>
  The header that \<^verbatim>\<open>ReadUEFModelData\<close> builds for an uncompressed file: the two size
  fields are never written and keep the indeterminate bytes of the local \<^verbatim>\<open>Header\<close>.
\<close>

definition uncompressed_header :: "environment \<Rightarrow> string \<Rightarrow> char \<Rightarrow> string \<Rightarrow> FUEFormatHeader" where
  "uncompressed_header env ident ver name =
     \<lparr>Identifier = ident, FileVersionBytes = ver, ObjectName = name, IsCompressed = False,
      CompressionType = [],
      CompressedSize = int_of_bytes (uninitialised (indeterminate env) 4),
      UncompressedSize = int_of_bytes (uninitialised (indeterminate env) 4)\<rparr>"

text \<open>
  Scenario A of the specification: one \<^verbatim>\<open>LODS\<close> section with one LOD that holds a
  \<^verbatim>\<open>VERTICES\<close> chunk of 3 elements (the 36 bytes \<open>vs\<close>) and an \<^verbatim>\<open>INDICES\<close> chunk with the
  values 0, 1, 2. The chunks take 87 bytes.
\<close>

definition scenario_A_chunks :: "char list \<Rightarrow> char list" where
  "scenario_A_chunks vs =
     chunk_bytes ''VERTICES'' 3 36 vs @
     chunk_bytes ''INDICES'' 3 12 (enc_int 0 @ enc_int 1 @ enc_int 2)"

definition scenario_A_payload :: "string \<Rightarrow> char list \<Rightarrow> char list" where
  "scenario_A_payload lodname vs =
     section_bytes ''LODS'' 1 (95 + int (length lodname))
       (lod_bytes lodname 87 (scenario_A_chunks vs))"

definition scenario_A_file :: "char \<Rightarrow> string \<Rightarrow> string \<Rightarrow> char list \<Rightarrow> char list" where
  "scenario_A_file ver name lodname vs =
     uncompressed_file ''UEMODEL'' ver name (scenario_A_payload lodname vs)"

definition scenario_A_vertices :: "char list" where
  "scenario_A_vertices =
     enc_int 1 @ enc_int 2 @ enc_int 3 @ enc_int 4 @ enc_int 5 @ enc_int 6 @
     enc_int 7 @ enc_int 8 @ enc_int 9"

text \<open>
  Two payloads whose declared lengths do not match what is consumed. In the first the LOD
  region is declared 20 bytes long, which is the header of its \<^verbatim>\<open>VERTICES\<close> chunk alone; the
  12 bytes of the vertex lie beyond the declared end of the region (and read, from there,
  as an empty section with an empty name). In the second a section of declared length 100
  sits in a payload of 20 bytes.
\<close>

definition lod_overshoot_payload :: "char list" where
  "lod_overshoot_payload =
     section_bytes ''LODS'' 1 41
       (lod_bytes ''L'' 20 (chunk_bytes ''VERTICES'' 1 12 (enc_string [] @ enc_int 0 @ enc_int 0)))"

definition lod_overshoot_file :: "char list" where
  "lod_overshoot_file = uncompressed_file ''UEMODEL'' (CHR 0x05) ''Cube'' lod_overshoot_payload"

definition section_overshoot_payload :: "char list" where
  "section_overshoot_payload = section_bytes ''SKELETON'' 0 100 []"


text \<open>
  For the proofs: the bytes \<open>bs\<close> are in memory at \<open>off\<close>, and the bytes of a file that
  are still to be read.
\<close>

definition stored_at :: "memory \<Rightarrow> int \<Rightarrow> char list \<Rightarrow> bool" where
  "stored_at Data off bs = (bytes_at Data off (length bs) = bs)"

definition remaining :: "FILE \<Rightarrow> char list" where
  "remaining File = drop (position File) (contents File)"

subsection \<open>The contents of the chunks on the wire\<close>

text \<open>
  The bytes that the decoders of the chunk payloads read back: a \<^verbatim>\<open>float\<close> as its bit
  pattern, a \<^verbatim>\<open>short\<close>, the elements of fixed size in the layout of their structs
  (\<^verbatim>\<open>FWeightChunk\<close> with its two bytes of padding, written as zero), and the nested records
  with their strings and counts.
\<close>

definition enc_float :: "float \<Rightarrow> char list" where
  "enc_float w = enc_int (uint w)"

definition enc_short :: "int \<Rightarrow> char list" where
  "enc_short x = [char_of x, char_of (x div 256)]"

definition enc_float2 :: "float2 \<Rightarrow> char list" where
  "enc_float2 v = (case v of (x, y) \<Rightarrow> enc_float x @ enc_float y)"

definition enc_float3 :: "float3 \<Rightarrow> char list" where
  "enc_float3 v = (case v of (x, y, z) \<Rightarrow> enc_float x @ enc_float y @ enc_float z)"

definition enc_float4 :: "float4 \<Rightarrow> char list" where
  "enc_float4 v = (case v of (w, x, y, z) \<Rightarrow> enc_float w @ enc_float x @ enc_float y @ enc_float z)"

definition enc_char4 :: "char4 \<Rightarrow> char list" where
  "enc_char4 v = (case v of (a, b, c, d) \<Rightarrow> [a, b, c, d])"

definition enc_weight :: "FWeightChunk \<Rightarrow> char list" where
  "enc_weight w =
     enc_short (WeightBoneIndex w) @ [CHR 0x00, CHR 0x00] @ enc_int (WeightVertexIndex w) @
     enc_float (WeightAmount w)"

definition enc_morph_delta :: "FMorphTargetDataChunk \<Rightarrow> char list" where
  "enc_morph_delta d =
     enc_float3 (MorphPosition d) @ enc_float3 (MorphNormals d) @ enc_int (MorphVertexIndex d)"
























section \<open>Basic facts about the primitive readers\<close>

lemma length_bytes_at [simp]: "length (bytes_at Data off n) = n"
  by (simp add: bytes_at_def)

lemma bytes_at_in_buffer:
  "0 \<le> off \<Longrightarrow> nat off + n \<le> length buf \<Longrightarrow>
   bytes_at (buffer_memory ext buf) off n = take n (drop (nat off) buf)"
  by (auto simp: bytes_at_def buffer_memory_def nat_add_distrib intro!: nth_equalityI)

text \<open>The definitions unfolded to run a reader on concrete bytes.\<close>

lemmas eval_defs = ReadString_def ReadStruct_def bytes_at_def buffer_memory_def int_of_bytes_def
  le_nat_def upt_conv_Cons

section \<open>Properties of the chunk decoder\<close>

text \<open>
  C3 (as amended). From the start of the payload, the cursor moves by exactly the declared
  \<open>DataSize\<close> for a \<^verbatim>\<open>TANGENTS\<close> chunk and for an unrecognised tag, and the LOD is left as
  it was. For a recognised tag the declared \<open>DataSize\<close> plays no part: the result is the
  same for every \<open>DataSize\<close>, and for \<^verbatim>\<open>VERTICES\<close>, \<^verbatim>\<open>INDICES\<close>, \<^verbatim>\<open>NORMALS\<close> and
  \<^verbatim>\<open>WEIGHTS\<close> with \<open>Num \<ge> 0\<close> the cursor moves by \<open>Num\<close> times the element size
  (12, 4, 16 and 12 bytes).
\<close>

theorem chunk_cursor_advance:
  "(HeaderType \<notin> set recognised_tags \<longrightarrow>
      ReadChunkPayload HeaderType Num DataSize Data lod LodsOffset =
        Inr (lod, LodsOffset + DataSize)) \<and>
   (HeaderType \<in> set recognised_tags \<longrightarrow>
      ReadChunkPayload HeaderType Num DataSize Data lod LodsOffset =
      ReadChunkPayload HeaderType Num DataSize' Data lod LodsOffset) \<and>
   (0 \<le> Num \<longrightarrow>
      map_sum id snd (ReadChunkPayload ''VERTICES'' Num DataSize Data lod LodsOffset) =
        Inr (LodsOffset + Num * 12) \<and>
      map_sum id snd (ReadChunkPayload ''INDICES'' Num DataSize Data lod LodsOffset) =
        Inr (LodsOffset + Num * 4) \<and>
      map_sum id snd (ReadChunkPayload ''NORMALS'' Num DataSize Data lod LodsOffset) =
        Inr (LodsOffset + Num * 16) \<and>
      map_sum id snd (ReadChunkPayload ''WEIGHTS'' Num DataSize Data lod LodsOffset) =
        Inr (LodsOffset + Num * 12))"
  by (simp add: ReadChunkPayload_def recognised_tags_def ReadStruct_def)

theorem chunk_cursor_advance_witness:
  "''TANGENTS'' \<notin> set recognised_tags \<and>
   ReadChunkPayload ''TANGENTS'' 2 24 (\<lambda>i. CHR 0x00) new_FLODData 100 = Inr (new_FLODData, 124) \<and>
   ''VERTICES'' \<in> set recognised_tags \<and>
   ReadChunkPayload ''VERTICES'' 2 24 (\<lambda>i. CHR 0x00) new_FLODData 100 =
     ReadChunkPayload ''VERTICES'' 2 0 (\<lambda>i. CHR 0x00) new_FLODData 100 \<and>
   (0::int) \<le> 2 \<and>
   map_sum id snd (ReadChunkPayload ''VERTICES'' 2 24 (\<lambda>i. CHR 0x00) new_FLODData 100) = Inr 124 \<and>
   map_sum id snd (ReadChunkPayload ''INDICES'' 2 24 (\<lambda>i. CHR 0x00) new_FLODData 100) = Inr 108 \<and>
   map_sum id snd (ReadChunkPayload ''NORMALS'' 2 24 (\<lambda>i. CHR 0x00) new_FLODData 100) = Inr 132 \<and>
   map_sum id snd (ReadChunkPayload ''WEIGHTS'' 2 24 (\<lambda>i. CHR 0x00) new_FLODData 100) = Inr 124"
  using chunk_cursor_advance
    [where HeaderType = "''TANGENTS''" and Num = 2 and DataSize = 24 and DataSize' = 24 and Data = "\<lambda>i. CHR 0x00"
       and lod = new_FLODData and LodsOffset = 100]
    chunk_cursor_advance
    [where HeaderType = "''VERTICES''" and Num = 2 and DataSize = 24 and DataSize' = 0
       and Data = "\<lambda>i. CHR 0x00" and lod = new_FLODData and LodsOffset = 100]
  by (simp add: recognised_tags_def)

text \<open>
  C3 as stated fails: a \<^verbatim>\<open>VERTICES\<close> chunk with one element and a declared byte length
  of 0 moves the cursor by 12 bytes, from 100 to 112.
\<close>

theorem chunk_cursor_counterexample:
  "ReadChunkPayload ''VERTICES'' 1 0 (\<lambda>i. CHR 0x00) new_FLODData 100 =
     Inr (new_FLODData\<lparr>Vertices := [(0, 0, 0)]\<rparr>, 112) \<and> (112::int) \<noteq> 100 + 0"
  by (simp add: ReadChunkPayload_def ReadStruct_def bytes_at_def elements_def
      float3_of_bytes_def float_of_bytes_def le_nat_def upt_conv_Cons)

section \<open>The geometry builder\<close>

text \<open>
  C5, the code at the input of the scenario: an LOD with 24 indices (8 triangles) and two
  materials with \<open>FirstIndex\<close> 0 and 5. The loop of \<^verbatim>\<open>BuildUEModel\<close> sets a material
  only when it meets a material whose \<open>FirstIndex\<close> is greater than the face index; for
  the faces 5, 6 and 7 there is none, the loop ends without a \<^verbatim>\<open>break\<close>, and the index
  stays 0. All eight triangles get material 0, where the claim expects material 1 for
  the triangles 5 to 7.
\<close>

theorem material_ranges_eval:
  "length (Indices two_materials_lod) = 24 \<and>
   map FirstIndex (Materials two_materials_lod) = [0, 5] \<and>
   material_indices two_materials_lod = [0, 0, 0, 0, 0, 0, 0, 0]"
  by (simp add: two_materials_lod_def material_indices_def new_FLODData_def upt_conv_Cons)

section \<open>Reading encoded data\<close>

text \<open>
  The readers on memory and files that hold encoded integers, strings and chunks: each
  lemma runs one reader and says where the rest of the data is.
\<close>

lemma of_char_char_of_int: "(of_char (char_of (a::int)) :: nat) = nat (a mod 256)"
proof -
  have "int (of_char (char_of a) :: nat) = a mod 256"
    by (simp only: of_nat_of_char of_char_of)
  then show ?thesis by linarith
qed

lemma le_bytes_mod:
  "(x::int) mod 256 + 256 * (x div 256 mod 256 + 256 * (x div 65536 mod 256 + 256 * (x div 16777216 mod 256)))
   = x mod 4294967296"
proof -
  have d2: "x div 65536 = x div 256 div 256"
    by (simp add: zdiv_zmult2_eq [symmetric])
  have d3: "x div 16777216 = x div 256 div 256 div 256"
    by (simp add: zdiv_zmult2_eq [symmetric])
  have m2: "y mod 65536 = 256 * (y div 256 mod 256) + y mod 256" for y :: int
    using zmod_zmult2_eq [of 256 y 256] by simp
  have m3: "y mod 16777216 = 256 * (y div 256 mod 65536) + y mod 256" for y :: int
    using zmod_zmult2_eq [of 65536 y 256] by simp
  have m4: "y mod 4294967296 = 256 * (y div 256 mod 16777216) + y mod 256" for y :: int
    using zmod_zmult2_eq [of 16777216 y 256] by simp
  show ?thesis
    unfolding d2 d3 m4 [of x] m3 [of "x div 256"] m2 [of "x div 256 div 256"]
    by simp
qed

lemma le_nat_enc_int: "int (le_nat (enc_int x)) = x mod 4294967296"
proof -
  have "int (le_nat (enc_int x)) =
      x mod 256 + 256 * (x div 256 mod 256 + 256 * (x div 65536 mod 256 + 256 * (x div 16777216 mod 256)))"
    by (simp add: le_nat_def enc_int_def of_char_char_of_int)
  then show ?thesis by (simp only: le_bytes_mod)
qed

lemma length_enc_int [simp]: "length (enc_int x) = 4"
  by (simp add: enc_int_def)

lemma int_of_bytes_enc_int:
  assumes "- 2147483648 \<le> x" "x < 2147483648"
  shows "int_of_bytes (enc_int x @ rest) = x"
proof -
  have "int_of_bytes (enc_int x @ rest) = signed_take_bit 31 (int (le_nat (enc_int x)))"
    by (simp add: int_of_bytes_def signed_of_nat)
  also have "\<dots> = signed_take_bit 31 (take_bit 32 x)"
    by (simp only: le_nat_enc_int take_bit_eq_mod) simp
  also have "\<dots> = signed_take_bit 31 x"
    by (simp add: signed_take_bit_take_bit)
  also have "\<dots> = x"
    using assms by (simp add: signed_take_bit_int_eq_self_iff)
  finally show ?thesis .
qed

lemma bytes_at_add:
  "bytes_at Data off (m + n) = bytes_at Data off m @ bytes_at Data (off + int m) n"
  by (rule nth_equalityI) (auto simp: bytes_at_def nth_append)

lemma stored_at_append:
  "stored_at Data off (a @ b) = (stored_at Data off a \<and> stored_at Data (off + int (length a)) b)"
  by (simp add: stored_at_def bytes_at_add)

lemma stored_at_buffer: "stored_at (buffer_memory ext buf) 0 buf"
  by (simp add: stored_at_def bytes_at_in_buffer)

lemma stored_at_bytes: "stored_at Data off bs \<Longrightarrow> n = length bs \<Longrightarrow> bytes_at Data off n = bs"
  by (simp add: stored_at_def)

lemma int_of_bytes_enc_int': 
  "- 2147483648 \<le> x \<Longrightarrow> x < 2147483648 \<Longrightarrow> int_of_bytes (enc_int x) = x"
  using int_of_bytes_enc_int [of x "[]"] by simp

lemma ReadStruct_int:
  assumes "stored_at Data off (enc_int x @ rest)" "- 2147483648 \<le> x" "x < 2147483648"
  shows "ReadStruct Data off 4 = (enc_int x, off + 4)"
    and "int_of_bytes (enc_int x) = x"
    and "stored_at Data (off + 4) rest"
  using assms by (simp_all add: stored_at_append ReadStruct_def stored_at_bytes int_of_bytes_enc_int')

lemma ReadString_stored:
  assumes "stored_at Data off (enc_string s @ rest)" "length s < 2147483648"
  shows "ReadString Data off = Inr (s, off + 4 + int (length s))"
    and "stored_at Data (off + 4 + int (length s)) rest"
proof -
  from assms(1) have a: "stored_at Data off (enc_int (int (length s)))"
    and b: "stored_at Data (off + 4) s" and c: "stored_at Data (off + 4 + int (length s)) rest"
    by (simp_all add: enc_string_def stored_at_append add.assoc)
  from a have "bytes_at Data off 4 = enc_int (int (length s))"
    by (simp add: stored_at_bytes)
  moreover have "int_of_bytes (enc_int (int (length s))) = int (length s)"
    using assms(2) by (simp add: int_of_bytes_enc_int')
  moreover from b have "bytes_at Data (off + 4) (length s) = s"
    by (simp add: stored_at_bytes)
  ultimately show "ReadString Data off = Inr (s, off + 4 + int (length s))"
    by (simp add: ReadString_def Let_def)
  from c show "stored_at Data (off + 4 + int (length s)) rest" .
qed

lemma ReadStruct_bytes:
  assumes "stored_at Data off (bs @ rest)" "Size = int (length bs)"
  shows "ReadStruct Data off Size = (bs, off + Size)"
    and "stored_at Data (off + Size) rest"
  using assms by (simp_all add: stored_at_append ReadStruct_def stored_at_bytes)

lemma ReadChunk_stored:
  assumes "stored_at Data off (chunk_bytes tag Num DataSize payload @ rest)"
    and "length tag < 2147483648"
    and "- 2147483648 \<le> Num" "Num < 2147483648"
    and "- 2147483648 \<le> DataSize" "DataSize < 2147483648"
  shows "ReadChunk Data lod off =
           ReadChunkPayload tag Num DataSize Data lod (off + 12 + int (length tag))"
    and "stored_at Data (off + 12 + int (length tag)) (payload @ rest)"
proof -
  define o1 where "o1 = off + 4 + int (length tag)"
  from assms(1) have s0: "stored_at Data off (enc_string tag @ enc_int Num @ enc_int DataSize @ payload @ rest)"
    by (simp add: chunk_bytes_def)
  note r1 = ReadString_stored [OF s0 assms(2), folded o1_def]
  note r2 = ReadStruct_int [OF r1(2) assms(3,4)]
  note r3 = ReadStruct_int [OF r2(3) assms(5,6)]
  have e: "o1 + 4 + 4 = off + 12 + int (length tag)" by (simp add: o1_def)
  have "ReadChunk Data lod off = ReadChunkPayload tag Num DataSize Data lod (o1 + 4 + 4)"
    by (simp add: ReadChunk_def r1(1) r2(1,2) r3(1,2))
  then show "ReadChunk Data lod off =
           ReadChunkPayload tag Num DataSize Data lod (off + 12 + int (length tag))"
    by (simp only: e)
  from r3(3) show "stored_at Data (off + 12 + int (length tag)) (payload @ rest)"
    by (simp only: e)
qed

lemma elements_concat_ints:
  "elements 4 int_of_bytes (enc_int 0 @ enc_int 1 @ enc_int 2) = [0, 1, 2]"
  by (simp add: elements_def upt_conv_Cons int_of_bytes_enc_int int_of_bytes_enc_int')

lemma length_elements: "length (elements sz f bs) = length bs div sz"
  by (simp add: elements_def)

lemma ReadChunkPayload_VERTICES:
  assumes "stored_at Data off (payload @ rest)" "int (length payload) = Num * 12"
  shows "ReadChunkPayload ''VERTICES'' Num DataSize Data lod off =
           Inr (lod\<lparr>Vertices := elements 12 float3_of_bytes payload\<rparr>, off + Num * 12)"
proof -
  from assms(2) have n: "0 \<le> Num" by linarith
  from ReadStruct_bytes(1) [OF assms(1), of "Num * 12"] assms(2)
  have "ReadStruct Data off (Num * 12) = (payload, off + Num * 12)" by simp
  with n show ?thesis by (simp add: ReadChunkPayload_def)
qed

lemma ReadChunkPayload_INDICES:
  assumes "stored_at Data off (payload @ rest)" "int (length payload) = Num * 4"
  shows "ReadChunkPayload ''INDICES'' Num DataSize Data lod off =
           Inr (lod\<lparr>Indices := elements 4 int_of_bytes payload\<rparr>, off + Num * 4)"
proof -
  from assms(2) have n: "0 \<le> Num" by linarith
  from ReadStruct_bytes(1) [OF assms(1), of "Num * 4"] assms(2)
  have "ReadStruct Data off (Num * 4) = (payload, off + Num * 4)" by simp
  with n show ?thesis by (simp add: ReadChunkPayload_def)
qed

lemma length_uninitialised [simp]: "length (uninitialised indet n) = n"
  by (simp add: uninitialised_def)

lemma fread_exact:
  assumes "remaining File = bs @ rest" "length dst = length bs" "n = length bs"
  shows "fread dst n File = (bs, File\<lparr>position := position File + n\<rparr>)"
  using assms by (simp add: remaining_def fread_def Let_def)

lemma remaining_advance:
  assumes "remaining File = bs @ rest" "n = length bs"
  shows "remaining (File\<lparr>position := position File + n\<rparr>) = rest"
proof -
  have "drop (position File + n) (contents File) = drop n (drop (position File) (contents File))"
    by (simp add: add.commute)
  with assms show ?thesis by (simp add: remaining_def)
qed

lemma ReadString_File_remaining:
  assumes "remaining File = enc_string s @ rest" "length s < 2147483648"
  shows "ReadString_File indet File = Inr (s, File\<lparr>position := position File + 4 + length s\<rparr>)"
    and "remaining (File\<lparr>position := position File + 4 + length s\<rparr>) = rest"
proof -
  define F1 where "F1 = File\<lparr>position := position File + 4\<rparr>"
  from assms(1) have r0: "remaining File = enc_int (int (length s)) @ s @ rest"
    by (simp add: enc_string_def)
  have a: "fread (uninitialised indet 4) 4 File = (enc_int (int (length s)), F1)"
    unfolding F1_def by (rule fread_exact [OF r0]) simp_all
  have b: "remaining F1 = s @ rest"
    unfolding F1_def by (rule remaining_advance [OF r0]) simp
  have c: "fread (replicate (length s) (CHR 0x00)) (length s) F1 =
        (s, F1\<lparr>position := position F1 + length s\<rparr>)"
    by (rule fread_exact [OF b]) simp_all
  have d: "remaining (F1\<lparr>position := position F1 + length s\<rparr>) = rest"
    by (rule remaining_advance [OF b]) simp
  have e: "F1\<lparr>position := position F1 + length s\<rparr> =
      File\<lparr>position := position File + 4 + length s\<rparr>"
    by (simp add: F1_def)
  have i: "int_of_bytes (enc_int (int (length s))) = int (length s)"
    using assms(2) by (simp add: int_of_bytes_enc_int')
  show "ReadString_File indet File = Inr (s, File\<lparr>position := position File + 4 + length s\<rparr>)"
    by (simp add: ReadString_File_def a i c e)
  from d show "remaining (File\<lparr>position := position File + 4 + length s\<rparr>) = rest"
    by (simp only: e)
qed

lemma version_never_rejected: "\<not> version_rejected c"
  by (auto simp: version_rejected_def)

lemma length_enc_string [simp]: "length (enc_string s) = 4 + length s"
  by (simp add: enc_string_def)

lemma remaining_length:
  "remaining File = bs \<Longrightarrow> bs \<noteq> [] \<Longrightarrow> position File + length bs = length (contents File)"
  by (auto simp: remaining_def)

lemma header_uncompressed:
  assumes r: "remaining File = uncompressed_file ident ver name payload"
    and li: "length ident < 2147483648" and ln: "length name < 2147483648"
  defines "File' \<equiv> File\<lparr>position := position File + 18 + length ident + length name\<rparr>"
  shows "ReadUEFModelData_File env File =
           ReadPayload env
             \<lparr>Identifier = ident, FileVersionBytes = ver, ObjectName = name, IsCompressed = False,
              CompressionType = [],
              CompressedSize = int_of_bytes (uninitialised (indeterminate env) 4),
              UncompressedSize = int_of_bytes (uninitialised (indeterminate env) 4)\<rparr>
             File'"
    and "remaining File' = payload"
    and "position File' \<le> length (contents File')"
proof -
  define F1 where "F1 = File\<lparr>position := position File + 8\<rparr>"
  define F2 where "F2 = F1\<lparr>position := position F1 + 4 + length ident\<rparr>"
  define F3 where "F3 = F2\<lparr>position := position F2 + 1\<rparr>"
  define F4 where "F4 = F3\<lparr>position := position F3 + 4 + length name\<rparr>"
  define F5 where "F5 = F4\<lparr>position := position F4 + 1\<rparr>"
  from r have r0: "remaining File =
      ''UEFORMAT'' @ enc_string ident @ [ver] @ enc_string name @ [CHR 0x00] @ payload"
    by (simp add: uncompressed_file_def)
  have s1: "ReadString_File_len File (length UEF_MAGIC) = (UEF_MAGIC, F1)"
    by (simp add: ReadString_File_len_def F1_def UEF_MAGIC_def fread_def
        r0 [unfolded remaining_def])
  have r1: "remaining F1 = enc_string ident @ [ver] @ enc_string name @ [CHR 0x00] @ payload"
    unfolding F1_def by (rule remaining_advance [OF r0]) simp
  note s2 = ReadString_File_remaining(1) [OF r1 li, where indet = "indeterminate env", folded F2_def]
    ReadString_File_remaining(2) [OF r1 li, folded F2_def]
  have s3: "fread (uninitialised (indeterminate env) (Suc 0)) (Suc 0) F2 = ([ver], F3)"
    by (simp add: F3_def fread_def remaining_def [symmetric] s2(2))
  have r3: "remaining F3 = enc_string name @ [CHR 0x00] @ payload"
    unfolding F3_def using remaining_advance [OF s2(2), of 1] by simp
  note s4 = ReadString_File_remaining(1) [OF r3 ln, where indet = "indeterminate env", folded F4_def]
    ReadString_File_remaining(2) [OF r3 ln, folded F4_def]
  have s5: "fread (uninitialised (indeterminate env) (Suc 0)) (Suc 0) F4 = ([CHR 0x00], F5)"
    by (simp add: F5_def fread_def remaining_def [symmetric] s4(2))
  have r5: "remaining F5 = payload"
    unfolding F5_def using remaining_advance [OF s4(2), of 1] by simp
  have e: "F5 = File'"
    by (simp add: F5_def F4_def F3_def F2_def F1_def File'_def)
  have "ReadUEFModelData_File env File =
           ReadPayload env
             \<lparr>Identifier = ident, FileVersionBytes = ver, ObjectName = name, IsCompressed = False,
              CompressionType = [],
              CompressedSize = int_of_bytes (uninitialised (indeterminate env) 4),
              UncompressedSize = int_of_bytes (uninitialised (indeterminate env) 4)\<rparr>
             F5"
    by (simp add: ReadUEFModelData_File_def s1 s2(1) s3 s4(1) s5 version_never_rejected)
  then show "ReadUEFModelData_File env File =
           ReadPayload env
             \<lparr>Identifier = ident, FileVersionBytes = ver, ObjectName = name, IsCompressed = False,
              CompressionType = [],
              CompressedSize = int_of_bytes (uninitialised (indeterminate env) 4),
              UncompressedSize = int_of_bytes (uninitialised (indeterminate env) 4)\<rparr>
             File'"
    by (simp only: e)
  from r5 show "remaining File' = payload" by (simp only: e)
  have "position File + length (remaining File) = length (contents File)"
    by (rule remaining_length [OF refl]) (simp add: r0)
  then show "position File' \<le> length (contents File')"
    by (simp add: File'_def r0)
qed

lemma ReadPayload_uncompressed:
  assumes "\<not> IsCompressed Hdr" "position File \<le> length (contents File)"
  shows "ReadPayload env Hdr File =
     (if Identifier Hdr = ''UEMODEL'' then
        (case ReadModel (buffer_memory (outside env) (remaining File))
                (new_FUEModelData\<lparr>Header := Hdr\<rparr>) 0 (int (length (remaining File))) of
           None \<Rightarrow> None
         | Some (Inl e) \<Rightarrow> Some (Inl e)
         | Some (Inr (Data1, Offset)) \<Rightarrow> Some (Inr ([], Some Data1)))
      else Some (Inr ([], Some (new_FUEModelData\<lparr>Header := Hdr\<rparr>))))"
proof -
  have l: "int (length (contents File)) - int (position File) = int (length (remaining File))"
    using assms(2) by (simp add: remaining_def)
  have f: "ReadStruct_File (uninitialised (indeterminate env) (length (remaining File))) File
             (length (remaining File)) =
           (remaining File, File\<lparr>position := position File + length (remaining File)\<rparr>)"
    unfolding ReadStruct_File_def by (rule fread_exact [where rest = "[]"]) simp_all
  show ?thesis
    using assms by (simp add: ReadPayload_def l f Let_def)
qed

lemma header_compressed:
  assumes r: "remaining File = compressed_file ident ver name flag ctype usize csize rest"
    and li: "length ident < 2147483648" and ln: "length name < 2147483648"
    and lc: "length ctype < 2147483648"
    and fl: "flag \<noteq> CHR 0x00"
    and us: "- 2147483648 \<le> usize" "usize < 2147483648"
    and cs: "- 2147483648 \<le> csize" "csize < 2147483648"
  defines "File' \<equiv>
    File\<lparr>position := position File + 30 + length ident + length name + length ctype\<rparr>"
  shows "ReadUEFModelData_File env File =
           ReadPayload env
             \<lparr>Identifier = ident, FileVersionBytes = ver, ObjectName = name, IsCompressed = True,
              CompressionType = ctype, CompressedSize = csize, UncompressedSize = usize\<rparr>
             File'"
    and "remaining File' = rest"
proof -
  define F1 where "F1 = File\<lparr>position := position File + 8\<rparr>"
  define F2 where "F2 = F1\<lparr>position := position F1 + 4 + length ident\<rparr>"
  define F3 where "F3 = F2\<lparr>position := position F2 + 1\<rparr>"
  define F4 where "F4 = F3\<lparr>position := position F3 + 4 + length name\<rparr>"
  define F5 where "F5 = F4\<lparr>position := position F4 + 1\<rparr>"
  define F6 where "F6 = F5\<lparr>position := position F5 + 4 + length ctype\<rparr>"
  define F7 where "F7 = F6\<lparr>position := position F6 + 4\<rparr>"
  define F8 where "F8 = F7\<lparr>position := position F7 + 4\<rparr>"
  from r have r0: "remaining File =
      ''UEFORMAT'' @ enc_string ident @ [ver] @ enc_string name @ [flag] @
      enc_string ctype @ enc_int usize @ enc_int csize @ rest"
    by (simp add: compressed_file_def)
  have s1: "ReadString_File_len File (length UEF_MAGIC) = (UEF_MAGIC, F1)"
    by (simp add: ReadString_File_len_def F1_def UEF_MAGIC_def fread_def
        r0 [unfolded remaining_def])
  have r1: "remaining F1 = enc_string ident @ [ver] @ enc_string name @ [flag] @
      enc_string ctype @ enc_int usize @ enc_int csize @ rest"
    unfolding F1_def by (rule remaining_advance [OF r0]) simp
  note s2 = ReadString_File_remaining(1) [OF r1 li, where indet = "indeterminate env", folded F2_def]
    ReadString_File_remaining(2) [OF r1 li, folded F2_def]
  have s3: "fread (uninitialised (indeterminate env) (Suc 0)) (Suc 0) F2 = ([ver], F3)"
    by (simp add: F3_def fread_def remaining_def [symmetric] s2(2))
  have r3: "remaining F3 = enc_string name @ [flag] @
      enc_string ctype @ enc_int usize @ enc_int csize @ rest"
    unfolding F3_def using remaining_advance [OF s2(2), of 1] by simp
  note s4 = ReadString_File_remaining(1) [OF r3 ln, where indet = "indeterminate env", folded F4_def]
    ReadString_File_remaining(2) [OF r3 ln, folded F4_def]
  have s5: "fread (uninitialised (indeterminate env) (Suc 0)) (Suc 0) F4 = ([flag], F5)"
    by (simp add: F5_def fread_def remaining_def [symmetric] s4(2))
  have r5: "remaining F5 = enc_string ctype @ enc_int usize @ enc_int csize @ rest"
    unfolding F5_def using remaining_advance [OF s4(2), of 1] by simp
  note s6 = ReadString_File_remaining(1) [OF r5 lc, where indet = "indeterminate env", folded F6_def]
    ReadString_File_remaining(2) [OF r5 lc, folded F6_def]
  have s7: "ReadStruct_File (uninitialised (indeterminate env) 4) F6 4 = (enc_int usize, F7)"
    by (simp add: ReadStruct_File_def F7_def fread_def remaining_def [symmetric] s6(2))
  have r7: "remaining F7 = enc_int csize @ rest"
    unfolding F7_def using remaining_advance [OF s6(2), of 4] by simp
  have s8: "ReadStruct_File (uninitialised (indeterminate env) 4) F7 4 = (enc_int csize, F8)"
    by (simp add: ReadStruct_File_def F8_def fread_def remaining_def [symmetric] r7)
  have r8: "remaining F8 = rest"
    unfolding F8_def using remaining_advance [OF r7, of 4] by simp
  have e: "F8 = File'"
    by (simp add: F8_def F7_def F6_def F5_def F4_def F3_def F2_def F1_def File'_def)
  have "ReadUEFModelData_File env File =
           ReadPayload env
             \<lparr>Identifier = ident, FileVersionBytes = ver, ObjectName = name, IsCompressed = True,
              CompressionType = ctype, CompressedSize = csize, UncompressedSize = usize\<rparr>
             F8"
    using fl us cs
    by (simp add: ReadUEFModelData_File_def s1 s2(1) s3 s4(1) s5 s6(1) s7 s8
        version_never_rejected int_of_bytes_enc_int')
  then show "ReadUEFModelData_File env File =
           ReadPayload env
             \<lparr>Identifier = ident, FileVersionBytes = ver, ObjectName = name, IsCompressed = True,
              CompressionType = ctype, CompressedSize = csize, UncompressedSize = usize\<rparr>
             File'"
    by (simp only: e)
  from r8 show "remaining File' = rest" by (simp only: e)
qed

lemma ReadStruct_File_remaining:
  "ReadStruct_File dst File n =
     (fst (ReadStruct_File dst \<lparr>contents = remaining File, position = 0\<rparr> n),
      File\<lparr>position := position File + length (take n (remaining File))\<rparr>)"
  by (simp add: ReadStruct_File_def fread_def remaining_def Let_def)

lemma ReadPayload_size_mismatch:
  assumes "IsCompressed Hdr" "CompressionType Hdr = ''ZSTD''"
    and "0 \<le> UncompressedSize Hdr" "0 \<le> CompressedSize Hdr"
    and "remaining File = rest"
    and "fst (ZSTD_decompress env (nat (UncompressedSize Hdr))
           (fst (ReadStruct_File (uninitialised (indeterminate env) (nat (CompressedSize Hdr)))
              \<lparr>contents = rest, position = 0\<rparr> (nat (CompressedSize Hdr)))))
         \<noteq> nat (UncompressedSize Hdr)"
  shows "ReadPayload env Hdr File = Some (Inr ([''Failed to decompress data''], None))"
  using assms
  by (simp add: ReadPayload_def Let_def split_beta
      ReadStruct_File_remaining [of _ File])

lemma ReadPayload_unsupported:
  assumes "IsCompressed Hdr" "CompressionType Hdr \<noteq> ''ZSTD''"
    and "0 \<le> UncompressedSize Hdr" "0 \<le> CompressedSize Hdr"
  shows "ReadPayload env Hdr File = Some (Inr ([''Unsupported compression type''], None))"
  using assms by (simp add: ReadPayload_def Let_def split_beta)

lemma magic_mismatch:
  assumes "take 8 (remaining File) \<noteq> ''UEFORMAT''"
  shows "ReadUEFModelData_File env File = Some (Inr ([], Some new_FUEModelData))"
proof -
  define got where "got = take 8 (remaining File)"
  have len: "length UEF_MAGIC = 8" by (simp add: UEF_MAGIC_def)
  have m: "fst (ReadString_File_len File (length UEF_MAGIC)) =
      got @ drop (length got) (replicate 8 (CHR 0x00))"
    unfolding len by (simp add: ReadString_File_len_def fread_def Let_def got_def remaining_def)
  have "got @ drop (length got) (replicate 8 (CHR 0x00)) \<noteq> UEF_MAGIC"
  proof (cases "length got = 8")
    case True
    with assms show ?thesis by (simp add: got_def UEF_MAGIC_def)
  next
    case False
    have "length got \<le> 8" by (simp add: got_def)
    with False have l: "length got < 8" by simp
    then have "last (got @ drop (length got) (replicate 8 (CHR 0x00))) = CHR 0x00"
      by simp
    moreover have "last UEF_MAGIC = CHR ''T''" by (simp add: UEF_MAGIC_def)
    ultimately show ?thesis by auto
  qed
  with m show ?thesis
    by (simp add: ReadUEFModelData_File_def split_beta)
qed

lemma length_chunk_bytes [simp]:
  "length (chunk_bytes tag Num DataSize payload) = 12 + length tag + length payload"
  by (simp add: chunk_bytes_def)

lemma length_scenario_A_chunks:
  "length vs = 36 \<Longrightarrow> length (scenario_A_chunks vs) = 87"
  by (simp add: scenario_A_chunks_def)

lemma scenario_A_chunks_read:
  assumes st: "stored_at Data q (scenario_A_chunks vs @ rest)" and lv: "length vs = 36"
  shows "ReadLodChunks Data lod q q 87 =
     Some (Inr (lod\<lparr>Vertices := elements 12 float3_of_bytes vs, Indices := [0, 1, 2]\<rparr>))"
proof -
  define lod1 where "lod1 = lod\<lparr>Vertices := elements 12 float3_of_bytes vs\<rparr>"
  from st have s0: "stored_at Data q
      (chunk_bytes ''VERTICES'' 3 36 vs @
       chunk_bytes ''INDICES'' 3 12 (enc_int 0 @ enc_int 1 @ enc_int 2) @ rest)"
    by (simp add: scenario_A_chunks_def)
  have h1: "ReadChunk Data lod q = ReadChunkPayload ''VERTICES'' 3 36 Data lod (q + 20)"
    using ReadChunk_stored(1) [OF s0, of lod] by (simp add: ac_simps)
  have p1: "stored_at Data (q + 20)
      (vs @ chunk_bytes ''INDICES'' 3 12 (enc_int 0 @ enc_int 1 @ enc_int 2) @ rest)"
    using ReadChunk_stored(2) [OF s0] by (simp add: ac_simps)
  have c1: "ReadChunk Data lod q = Inr (lod1, q + 56)"
    using ReadChunkPayload_VERTICES [OF p1, of 3 36 lod] lv by (simp add: h1 lod1_def ac_simps)
  have s1: "stored_at Data (q + 56)
      (chunk_bytes ''INDICES'' 3 12 (enc_int 0 @ enc_int 1 @ enc_int 2) @ rest)"
    using p1 lv by (simp add: stored_at_append ac_simps)
  have h2: "ReadChunk Data lod1 (q + 56) = ReadChunkPayload ''INDICES'' 3 12 Data lod1 (q + 75)"
    using ReadChunk_stored(1) [OF s1, of lod1] by (simp add: ac_simps)
  have p2: "stored_at Data (q + 75) ((enc_int 0 @ enc_int 1 @ enc_int 2) @ rest)"
    using ReadChunk_stored(2) [OF s1] by (simp add: ac_simps)
  have c2: "ReadChunk Data lod1 (q + 56) = Inr (lod1\<lparr>Indices := [0, 1, 2]\<rparr>, q + 87)"
    using ReadChunkPayload_INDICES [OF p2, of 3 12 lod1]
    by (simp add: h2 elements_concat_ints ac_simps)
  have e3: "ReadLodChunks Data (lod1\<lparr>Indices := [0, 1, 2]\<rparr>) (q + 87) q 87 =
      Some (Inr (lod1\<lparr>Indices := [0, 1, 2]\<rparr>))"
    by (subst ReadLodChunks.simps) simp
  have e2: "ReadLodChunks Data lod1 (q + 56) q 87 = Some (Inr (lod1\<lparr>Indices := [0, 1, 2]\<rparr>))"
    by (subst ReadLodChunks.simps) (simp add: c2 e3)
  have e1: "ReadLodChunks Data lod q q 87 = Some (Inr (lod1\<lparr>Indices := [0, 1, 2]\<rparr>))"
    by (subst ReadLodChunks.simps) (simp add: c1 e2)
  then show ?thesis by (simp add: lod1_def)
qed

lemma scenario_A_model:
  assumes lv: "length vs = 36" and ll: "length lodname < 2147483000"
    and empty: "LODs Data = []"
  defines "payload \<equiv> scenario_A_payload lodname vs"
  shows "ReadModel (buffer_memory ext payload) Data 0 (int (length payload)) =
     Some (Inr (Data\<lparr>LODs :=
        [new_FLODData\<lparr>LODName := lodname, Vertices := elements 12 float3_of_bytes vs,
                      Indices := [0, 1, 2]\<rparr>]\<rparr>, int (length payload)))"
proof -
  define D where "D = buffer_memory ext payload"
  define q where "q = 24 + int (length lodname)"
  define lod2 where "lod2 = new_FLODData\<lparr>LODName := lodname,
     Vertices := elements 12 float3_of_bytes vs, Indices := [0, 1, 2]\<rparr>"
  have len: "int (length payload) = q + 87"
    by (simp add: payload_def scenario_A_payload_def section_bytes_def lod_bytes_def
        length_scenario_A_chunks [OF lv] q_def)
  have "stored_at D 0 (payload @ [])"
    by (simp add: D_def stored_at_buffer)
  then have s0: "stored_at D 0
      (enc_string ''LODS'' @ enc_int 1 @ enc_int (95 + int (length lodname)) @
       enc_string lodname @ enc_int 87 @ scenario_A_chunks vs @ [])"
    by (simp add: payload_def scenario_A_payload_def section_bytes_def lod_bytes_def)
  have a1: "ReadString D 0 = Inr (''LODS'', 8)"
    using ReadString_stored(1) [OF s0] by simp
  have t1: "stored_at D 8 (enc_int 1 @ enc_int (95 + int (length lodname)) @
       enc_string lodname @ enc_int 87 @ scenario_A_chunks vs @ [])"
    using ReadString_stored(2) [OF s0] by simp
  have a2: "ReadStruct D 8 4 = (enc_int 1, 12)" "int_of_bytes (enc_int 1) = 1"
    using ReadStruct_int(1,2) [OF t1] by simp_all
  have t2: "stored_at D 12 (enc_int (95 + int (length lodname)) @
       enc_string lodname @ enc_int 87 @ scenario_A_chunks vs @ [])"
    using ReadStruct_int(3) [OF t1] by simp
  have a3: "ReadStruct D 12 4 = (enc_int (95 + int (length lodname)), 16)"
    using ReadStruct_int(1) [OF t2] ll by simp
  have t3: "stored_at D 16 (enc_string lodname @ enc_int 87 @ scenario_A_chunks vs @ [])"
    using ReadStruct_int(3) [OF t2] ll by simp
  have b1: "ReadString D 16 = Inr (lodname, q - 4)"
    using ReadString_stored(1) [OF t3] ll by (simp add: q_def ac_simps)
  have t4: "stored_at D (q - 4) (enc_int 87 @ scenario_A_chunks vs @ [])"
    using ReadString_stored(2) [OF t3] ll by (simp add: q_def ac_simps)
  have b2: "ReadStruct D (q - 4) 4 = (enc_int 87, q)" "int_of_bytes (enc_int 87) = 87"
    using ReadStruct_int(1,2) [OF t4] by simp_all
  have t5: "stored_at D q (scenario_A_chunks vs @ [])"
    using ReadStruct_int(3) [OF t4] by simp
  have lodr: "ReadLod D new_FLODData 16 = Some (Inr (lod2, q + 87))"
    by (simp add: ReadLod_def b1 b2 scenario_A_chunks_read [OF t5 lv] lod2_def)
  have loop1: "ReadLods_loop D [lod2] 1 1 (q + 87) = Some (Inr ([lod2], q + 87))"
    by (subst ReadLods_loop.simps) simp
  have loop0: "ReadLods_loop D [new_FLODData] 0 1 16 = Some (Inr ([lod2], q + 87))"
    by (subst ReadLods_loop.simps) (simp add: lodr loop1)
  have lods: "ReadLods D [] 1 16 = Some (Inr ([lod2], q + 87))"
    by (simp add: ReadLods_def resize_def loop0)
  have fin: "ReadModel D (Data\<lparr>LODs := [lod2]\<rparr>) (q + 87) (q + 87) =
      Some (Inr (Data\<lparr>LODs := [lod2]\<rparr>, q + 87))"
    by (subst ReadModel.simps) simp
  have q0: "0 < q + 87" by (simp add: q_def)
  have "ReadModel D Data 0 (q + 87) = Some (Inr (Data\<lparr>LODs := [lod2]\<rparr>, q + 87))"
    by (subst ReadModel.simps) (simp add: q0 a1 a2 a3 empty lods fin)
  then show ?thesis
    by (simp only: len D_def lod2_def)
qed

lemmas wire_defs = section_bytes_def lod_bytes_def chunk_bytes_def enc_string_def enc_int_def
  char_of_def

lemmas chunk_eval_defs = ReadChunk_def ReadChunkPayload_def elements_def float3_of_bytes_def
  float_of_bytes_def

lemma lod_overshoot_chunks:
  "ReadLodChunks (buffer_memory ext lod_overshoot_payload) lod 25 25 20 =
     Some (Inr (lod\<lparr>Vertices := [(0, 0, 0)]\<rparr>))"
  by (simp add: lod_overshoot_payload_def wire_defs ReadLodChunks.simps chunk_eval_defs eval_defs)

lemma lod_overshoot_lod:
  "ReadLod (buffer_memory ext lod_overshoot_payload) new_FLODData 16 =
     Some (Inr (new_FLODData\<lparr>LODName := ''L'', Vertices := [(0, 0, 0)]\<rparr>, 45))"
proof -
  have "ReadString (buffer_memory ext lod_overshoot_payload) 16 = Inr (''L'', 21)"
    by (simp add: lod_overshoot_payload_def wire_defs eval_defs)
  moreover have "ReadStruct (buffer_memory ext lod_overshoot_payload) 21 4 = (enc_int 20, 25)"
    by (simp add: lod_overshoot_payload_def wire_defs eval_defs)
  moreover have "int_of_bytes (enc_int 20) = 20"
    by (simp add: int_of_bytes_enc_int')
  ultimately show ?thesis
    by (simp add: ReadLod_def lod_overshoot_chunks)
qed

lemma lod_overshoot_model:
  "LODs Data = [] \<Longrightarrow>
   ReadModel (buffer_memory ext lod_overshoot_payload) Data 0 57 =
     Some (Inr (Data\<lparr>LODs := [new_FLODData\<lparr>LODName := ''L'', Vertices := [(0, 0, 0)]\<rparr>]\<rparr>, 57))"
proof -
  assume e: "LODs Data = []"
  let ?D = "buffer_memory ext lod_overshoot_payload"
  let ?lod = "new_FLODData\<lparr>LODName := ''L'', Vertices := [(0, 0, 0)]\<rparr>"
  have h: "ReadString ?D 0 = Inr (''LODS'', 8)" "ReadStruct ?D 8 4 = (enc_int 1, 12)"
    "ReadStruct ?D 12 4 = (enc_int 41, 16)"
    "ReadString ?D 45 = Inr ([], 49)" "ReadStruct ?D 49 4 = (enc_int 0, 53)"
    "ReadStruct ?D 53 4 = (enc_int 0, 57)"
    by (simp_all add: lod_overshoot_payload_def wire_defs eval_defs)
  have i: "int_of_bytes (enc_int 1) = 1" "int_of_bytes (enc_int 0) = 0"
    by (simp_all add: int_of_bytes_enc_int')
  have l1: "ReadLods_loop ?D [?lod] 1 1 45 = Some (Inr ([?lod], 45))"
    by (subst ReadLods_loop.simps) simp
  have l0: "ReadLods_loop ?D [new_FLODData] 0 1 16 = Some (Inr ([?lod], 45))"
    by (subst ReadLods_loop.simps) (simp add: lod_overshoot_lod l1)
  have l: "ReadLods ?D [] 1 16 = Some (Inr ([?lod], 45))"
    by (simp add: ReadLods_def resize_def l0)
  have m2: "ReadModel ?D (Data\<lparr>LODs := [?lod]\<rparr>) 57 57 = Some (Inr (Data\<lparr>LODs := [?lod]\<rparr>, 57))"
    by (subst ReadModel.simps) simp
  have m1: "ReadModel ?D (Data\<lparr>LODs := [?lod]\<rparr>) 45 57 = Some (Inr (Data\<lparr>LODs := [?lod]\<rparr>, 57))"
    by (subst ReadModel.simps) (simp add: h i m2)
  show ?thesis
    by (subst ReadModel.simps) (simp add: h i e l m1)
qed

lemma section_overshoot_model:
  "ReadModel (buffer_memory ext section_overshoot_payload) Data 0 20 = Some (Inr (Data, 120))"
proof -
  let ?D = "buffer_memory ext section_overshoot_payload"
  have h: "ReadString ?D 0 = Inr (''SKELETON'', 12)" "ReadStruct ?D 12 4 = (enc_int 0, 16)"
    "ReadStruct ?D 16 4 = (enc_int 100, 20)"
    by (simp_all add: section_overshoot_payload_def wire_defs eval_defs)
  have i: "int_of_bytes (enc_int 100) = 100"
    by (simp add: int_of_bytes_enc_int')
  have m: "ReadModel ?D Data 120 20 = Some (Inr (Data, 120))"
    by (subst ReadModel.simps) simp
  show ?thesis
    by (subst ReadModel.simps) (simp add: h i m)
qed

lemma remaining_start [simp]: "remaining \<lparr>contents = bs, position = 0\<rparr> = bs"
  by (simp add: remaining_def)

lemma uncompressed_decode:
  assumes "remaining File = uncompressed_file ident ver name payload"
    and "length ident < 2147483648" and "length name < 2147483648"
  shows "ReadUEFModelData_File env File =
     (if ident = ''UEMODEL'' then
        (case ReadModel (buffer_memory (outside env) payload)
                (new_FUEModelData\<lparr>Header := uncompressed_header env ident ver name\<rparr>) 0
                (int (length payload)) of
           None \<Rightarrow> None
         | Some (Inl e) \<Rightarrow> Some (Inl e)
         | Some (Inr (Data1, Offset)) \<Rightarrow> Some (Inr ([], Some Data1)))
      else Some (Inr ([], Some (new_FUEModelData\<lparr>Header := uncompressed_header env ident ver name\<rparr>))))"
proof -
  note h1 = header_uncompressed(1) [OF assms, where env = env]
    and h2 = header_uncompressed(2) [OF assms]
    and h3 = header_uncompressed(3) [OF assms]
  have i: "Identifier (uncompressed_header env ident ver name) = ident"
    by (simp add: uncompressed_header_def)
  have c: "\<not> IsCompressed (uncompressed_header env ident ver name)"
    by (simp add: uncompressed_header_def)
  show ?thesis
    by (simp only: h1 [folded uncompressed_header_def] ReadPayload_uncompressed [OF c h3] h2 i)
qed

lemma scenario_A_result:
  assumes "length vs = 36" "length name < 2147483648" "length lodname < 2147483000"
  shows "ReadUEFModelData_File env
           \<lparr>contents = scenario_A_file ver name lodname vs, position = 0\<rparr> =
         Some (Inr ([], Some
           \<lparr>Header = uncompressed_header env ''UEMODEL'' ver name,
            LODs = [new_FLODData\<lparr>LODName := lodname,
                      Vertices := elements 12 float3_of_bytes vs, Indices := [0, 1, 2]\<rparr>]\<rparr>))"
proof -
  have r: "remaining \<lparr>contents = scenario_A_file ver name lodname vs, position = 0\<rparr> =
      uncompressed_file ''UEMODEL'' ver name (scenario_A_payload lodname vs)"
    by (simp add: scenario_A_file_def)
  have m: "ReadModel (buffer_memory (outside env) (scenario_A_payload lodname vs))
      \<lparr>Header = uncompressed_header env ''UEMODEL'' ver name, LODs = []\<rparr> 0
      (int (length (scenario_A_payload lodname vs))) =
     Some (Inr (\<lparr>Header = uncompressed_header env ''UEMODEL'' ver name,
        LODs = [new_FLODData\<lparr>LODName := lodname,
            Vertices := elements 12 float3_of_bytes vs, Indices := [0, 1, 2]\<rparr>]\<rparr>,
        int (length (scenario_A_payload lodname vs))))"
    using scenario_A_model [OF assms(1,3),
        where Data = "\<lparr>Header = uncompressed_header env ''UEMODEL'' ver name, LODs = []\<rparr>"
          and ext = "outside env"]
    by simp
  show ?thesis
    using assms(2) by (simp add: uncompressed_decode [OF r] m new_FUEModelData_def)
qed


lemma compressed_decode:
  assumes "length ident < 2147483648" "length name < 2147483648" "length ctype < 2147483648"
    and "flag \<noteq> CHR 0x00"
    and "0 \<le> usize" "usize < 2147483648" "0 \<le> csize" "csize < 2147483648"
  shows "ctype = ''ZSTD'' \<Longrightarrow>
         fst (ZSTD_decompress env (nat usize)
           (fst (ReadStruct_File (uninitialised (indeterminate env) (nat csize))
              \<lparr>contents = rest, position = 0\<rparr> (nat csize)))) \<noteq> nat usize \<Longrightarrow>
         ReadUEFModelData_File env
           \<lparr>contents = compressed_file ident ver name flag ctype usize csize rest, position = 0\<rparr> =
         Some (Inr ([''Failed to decompress data''], None))"
    and "ctype \<noteq> ''ZSTD'' \<Longrightarrow>
         ReadUEFModelData_File env
           \<lparr>contents = compressed_file ident ver name flag ctype usize csize rest, position = 0\<rparr> =
         Some (Inr ([''Unsupported compression type''], None))"
proof -
  let ?File = "\<lparr>contents = compressed_file ident ver name flag ctype usize csize rest,
     position = 0\<rparr>"
  have r: "remaining ?File = compressed_file ident ver name flag ctype usize csize rest"
    by simp
  have us: "- 2147483648 \<le> usize" and cs: "- 2147483648 \<le> csize"
    using assms(5,7) by simp_all
  note h1 = header_compressed(1) [OF r assms(1-4) us assms(6) cs assms(8), where env = env]
    and h2 = header_compressed(2) [OF r assms(1-4) us assms(6) cs assms(8)]
  show "ReadUEFModelData_File env ?File = Some (Inr ([''Failed to decompress data''], None))"
    if "ctype = ''ZSTD''"
      "fst (ZSTD_decompress env (nat usize)
           (fst (ReadStruct_File (uninitialised (indeterminate env) (nat csize))
              \<lparr>contents = rest, position = 0\<rparr> (nat csize)))) \<noteq> nat usize"
    unfolding h1
    by (rule ReadPayload_size_mismatch [OF _ _ _ _ h2]) (use that assms(5,7) in simp_all)
  show "ReadUEFModelData_File env ?File = Some (Inr ([''Unsupported compression type''], None))"
    if "ctype \<noteq> ''ZSTD''"
    unfolding h1 using that assms(5,7)
    by (intro ReadPayload_unsupported) simp_all
qed

section \<open>Properties of the container reader\<close>

text \<open>
  C7 (Scenario A). For every uncompressed file with identifier \<^verbatim>\<open>UEMODEL\<close> whose payload
  is one \<^verbatim>\<open>LODS\<close> section with a single LOD that holds one \<^verbatim>\<open>VERTICES\<close> chunk of 3
  elements (any 36 bytes) and one \<^verbatim>\<open>INDICES\<close> chunk of 3 elements with the values 0, 1, 2,
  whatever the version byte, the object name, the name of the LOD and the environment:
  the reader returns a model with exactly one LOD, whose positions are the 3 vertices
  decoded from the 36 bytes, whose indices are \<open>[0, 1, 2]\<close>, and whose normals and
  materials are empty.
\<close>

theorem scenario_A_decodes:
  assumes "length vs = 36" "length name < 2147483648" "length lodname < 2147483000"
  shows "\<exists>hdr lod.
     ReadUEFModelData_File env \<lparr>contents = scenario_A_file ver name lodname vs, position = 0\<rparr> =
       Some (Inr ([], Some \<lparr>Header = hdr, LODs = [lod]\<rparr>)) \<and>
     Identifier hdr = ''UEMODEL'' \<and>
     Vertices lod = elements 12 float3_of_bytes vs \<and> length (Vertices lod) = 3 \<and>
     Indices lod = [0, 1, 2] \<and> Normals lod = [] \<and> Materials lod = []"
  using scenario_A_result [OF assms, of env ver] assms(1)
  by (simp add: uncompressed_header_def new_FLODData_def length_elements)

theorem scenario_A_decodes_witness:
  "length scenario_A_vertices = 36 \<and>
   (\<exists>hdr lod.
     ReadUEFModelData_File example_env
       \<lparr>contents = scenario_A_file (CHR 0x04) ''Cube'' ''LOD0'' scenario_A_vertices,
        position = 0\<rparr> =
       Some (Inr ([], Some \<lparr>Header = hdr, LODs = [lod]\<rparr>)) \<and>
     Identifier hdr = ''UEMODEL'' \<and>
     Vertices lod = [(1, 2, 3), (4, 5, 6), (7, 8, 9)] \<and> length (Vertices lod) = 3 \<and>
     Indices lod = [0, 1, 2] \<and> Normals lod = [] \<and> Materials lod = [])"
proof -
  have l: "length scenario_A_vertices = 36"
    by (simp add: scenario_A_vertices_def)
  have v: "elements 12 float3_of_bytes scenario_A_vertices = [(1, 2, 3), (4, 5, 6), (7, 8, 9)]"
    by (simp add: scenario_A_vertices_def enc_int_def char_of_def elements_def upt_conv_Cons
        float3_of_bytes_def float_of_bytes_def le_nat_def)
  from scenario_A_decodes [OF l, of "''Cube''" "''LOD0''" example_env "CHR 0x04"] l v
  show ?thesis by simp
qed

text \<open>
  C2, the code at work. The test of the version byte,
  \<^verbatim>\<open>!(Header.FileVersionBytes <= 5 || Header.FileVersionBytes > 3)\<close>, is false for every
  byte, so no version is rejected: the file of Scenario A with the version byte 9, outside
  the supported range, is decoded and returned as a model with one LOD.
\<close>

theorem version_gate_never_rejects:
  "(\<forall>c. \<not> version_rejected c) \<and>
   (\<exists>m. ReadUEFModelData_File example_env
       \<lparr>contents = scenario_A_file (CHR 0x09) ''Cube'' ''LOD0'' scenario_A_vertices,
        position = 0\<rparr> = Some (Inr ([], Some m)) \<and>
     FileVersionBytes (Header m) = CHR 0x09 \<and> version_value (FileVersionBytes (Header m)) = 9 \<and>
     length (LODs m) = 1)"
proof -
  have l: "length scenario_A_vertices = 36"
    by (simp add: scenario_A_vertices_def)
  have "version_value (CHR 0x09) = 9"
    by (simp add: version_value_def)
  with scenario_A_result [OF l, of "''Cube''" "''LOD0''" example_env "CHR 0x09"]
  show ?thesis
    by (simp add: version_never_rejected uncompressed_header_def)
qed

text \<open>
  C9, what the code does. When the eight bytes read for the magic differ from
  \<^verbatim>\<open>UEFORMAT\<close> (also when fewer than eight bytes are left), the reader returns at once and
  reads nothing more of the file; but it returns the freshly allocated model, with its
  default header and no LODs, as a non-null pointer and prints nothing. No failure is
  reported.
\<close>

theorem invalid_magic_returns_model:
  assumes "take 8 (drop (position File) (contents File)) \<noteq> ''UEFORMAT''"
  shows "ReadUEFModelData_File env File = Some (Inr ([], Some new_FUEModelData))"
  using assms by (intro magic_mismatch) (simp add: remaining_def)

theorem invalid_magic_returns_model_witness:
  "take 8 (drop 0 ''UEFORMAX and whatever follows'') \<noteq> ''UEFORMAT'' \<and>
   ReadUEFModelData_File example_env
     \<lparr>contents = ''UEFORMAX and whatever follows'', position = 0\<rparr> =
     Some (Inr ([], Some new_FUEModelData)) \<and>
   LODs new_FUEModelData = []"
  using invalid_magic_returns_model
      [where File = "\<lparr>contents = ''UEFORMAX and whatever follows'', position = 0\<rparr>"
         and env = example_env]
  by (simp add: new_FUEModelData_def)

section \<open>Declared lengths against consumed bytes\<close>

text \<open>
  C4 (as amended). The decoder never compares a declared length with the bytes consumed
  and has no failure for a mismatch. The chunk loop of an LOD region runs while the chunk
  cursor is before the declared end of the region, and returns normally once the cursor is
  at that end or beyond it. The LOD assembler then moves the outer cursor to the start of
  the region plus the declared length, whatever the chunks consumed. The loop of the
  model decoder runs while the cursor is before the end of the buffer and returns normally
  once the cursor is at the end or beyond it.
\<close>

theorem no_length_checks:
  "(Offset + LodsSize \<le> LodsOffset \<longrightarrow>
      ReadLodChunks Data lod LodsOffset Offset LodsSize = Some (Inr lod)) \<and>
   (ReadString Data Offset = Inr (name, after_name) \<and>
    ReadLod Data lod Offset = Some (Inr (lod', Offset')) \<longrightarrow>
      Offset' = after_name + 4 + int_of_bytes (bytes_at Data after_name 4)) \<and>
   (DecompressedSize \<le> Offset \<longrightarrow>
      ReadModel Data Model Offset DecompressedSize = Some (Inr (Model, Offset)))"
proof (intro conjI impI)
  assume "Offset + LodsSize \<le> LodsOffset"
  then show "ReadLodChunks Data lod LodsOffset Offset LodsSize = Some (Inr lod)"
    by (subst ReadLodChunks.simps) simp
next
  assume "ReadString Data Offset = Inr (name, after_name) \<and>
    ReadLod Data lod Offset = Some (Inr (lod', Offset'))"
  then show "Offset' = after_name + 4 + int_of_bytes (bytes_at Data after_name 4)"
    by (auto simp: ReadLod_def ReadStruct_def Let_def split: option.splits sum.splits)
next
  assume "DecompressedSize \<le> Offset"
  then show "ReadModel Data Model Offset DecompressedSize = Some (Inr (Model, Offset))"
    by (subst ReadModel.simps) simp
qed

theorem no_length_checks_witness:
  "ReadLodChunks (buffer_memory (\<lambda>i. CHR ''x'') lod_overshoot_payload)
     (new_FLODData\<lparr>LODName := ''L'', Vertices := [(0, 0, 0)]\<rparr>) 57 25 20 =
     Some (Inr (new_FLODData\<lparr>LODName := ''L'', Vertices := [(0, 0, 0)]\<rparr>)) \<and>
   ReadString (buffer_memory (\<lambda>i. CHR ''x'') lod_overshoot_payload) 16 = Inr (''L'', 21) \<and>
   ReadLod (buffer_memory (\<lambda>i. CHR ''x'') lod_overshoot_payload) new_FLODData 16 =
     Some (Inr (new_FLODData\<lparr>LODName := ''L'', Vertices := [(0, 0, 0)]\<rparr>, 45)) \<and>
   (45::int) = 21 + 4 + int_of_bytes (bytes_at (buffer_memory (\<lambda>i. CHR ''x'') lod_overshoot_payload) 21 4) \<and>
   ReadModel (buffer_memory (\<lambda>i. CHR ''x'') section_overshoot_payload) new_FUEModelData 120 20 =
     Some (Inr (new_FUEModelData, 120))"
proof -
  let ?D = "buffer_memory (\<lambda>i. CHR ''x'') lod_overshoot_payload"
  let ?lod = "new_FLODData\<lparr>LODName := ''L'', Vertices := [(0, 0, 0)]\<rparr>"
  have s: "ReadString ?D 16 = Inr (''L'', 21)"
    by (simp add: lod_overshoot_payload_def wire_defs eval_defs)
  note l = lod_overshoot_lod [of "\<lambda>i. CHR ''x''"]
  from no_length_checks
      [where Offset = 25 and LodsSize = 20 and LodsOffset = 57 and Data = ?D and lod = ?lod
         and name = "''L''" and after_name = 21 and lod' = ?lod and Offset' = 45
         and DecompressedSize = 20 and Model = new_FUEModelData]
    no_length_checks
      [where Offset = 16 and LodsSize = 20 and LodsOffset = 57 and Data = ?D
         and lod = new_FLODData
         and name = "''L''" and after_name = 21 and lod' = ?lod and Offset' = 45
         and DecompressedSize = 20 and Model = new_FUEModelData]
    no_length_checks
      [where Offset = 120 and LodsSize = 20 and LodsOffset = 200
         and Data = "buffer_memory (\<lambda>i. CHR ''x'') section_overshoot_payload"
         and lod = new_FLODData
         and name = "''L''" and after_name = 21 and lod' = ?lod and Offset' = 45
         and DecompressedSize = 20 and Model = new_FUEModelData]
    s l
  show ?thesis by simp
qed

text \<open>
  C4 as stated fails. In the first file the LOD region is declared 20 bytes long and its
  only chunk consumes 32 bytes: decoding succeeds, with the vertex read from beyond the
  declared end of the region. In the second payload, of 20 bytes, a skipped section of
  declared length 100 leaves the cursor at 120: the model decoder returns normally.
\<close>

theorem malformed_lengths_counterexample:
  "length lod_overshoot_payload = 57 \<and>
   ReadUEFModelData_File example_env \<lparr>contents = lod_overshoot_file, position = 0\<rparr> =
     Some (Inr ([], Some
       \<lparr>Header = uncompressed_header example_env ''UEMODEL'' (CHR 0x05) ''Cube'',
        LODs = [new_FLODData\<lparr>LODName := ''L'', Vertices := [(0, 0, 0)]\<rparr>]\<rparr>)) \<and>
   length section_overshoot_payload = 20 \<and>
   ReadModel (buffer_memory (outside example_env) section_overshoot_payload)
     new_FUEModelData 0 20 = Some (Inr (new_FUEModelData, 120))"
proof -
  have l: "length lod_overshoot_payload = 57"
    by (simp add: lod_overshoot_payload_def section_bytes_def lod_bytes_def)
  have r: "remaining \<lparr>contents = lod_overshoot_file, position = 0\<rparr> =
      uncompressed_file ''UEMODEL'' (CHR 0x05) ''Cube'' lod_overshoot_payload"
    by (simp add: lod_overshoot_file_def)
  have m: "ReadModel (buffer_memory (outside example_env) lod_overshoot_payload)
      \<lparr>Header = uncompressed_header example_env ''UEMODEL'' (CHR 0x05) ''Cube'', LODs = []\<rparr>
      0 57 =
     Some (Inr (\<lparr>Header = uncompressed_header example_env ''UEMODEL'' (CHR 0x05) ''Cube'',
       LODs = [new_FLODData\<lparr>LODName := ''L'', Vertices := [(0, 0, 0)]\<rparr>]\<rparr>, 57))"
    using lod_overshoot_model
      [where Data = "\<lparr>Header = uncompressed_header example_env ''UEMODEL'' (CHR 0x05) ''Cube'',
         LODs = []\<rparr>" and ext = "outside example_env"]
    by simp
  have f: "ReadUEFModelData_File example_env \<lparr>contents = lod_overshoot_file, position = 0\<rparr> =
     Some (Inr ([], Some
       \<lparr>Header = uncompressed_header example_env ''UEMODEL'' (CHR 0x05) ''Cube'',
        LODs = [new_FLODData\<lparr>LODName := ''L'', Vertices := [(0, 0, 0)]\<rparr>]\<rparr>))"
    by (simp add: uncompressed_decode [OF r] l m new_FUEModelData_def)
  have l2: "length section_overshoot_payload = 20"
    by (simp add: section_overshoot_payload_def section_bytes_def)
  from l f l2 section_overshoot_model [of "outside example_env" new_FUEModelData]
  show ?thesis by simp
qed

section \<open>Chunks read back from their encoding\<close>

text \<open>
  Every decoder of a chunk payload returns the contents that were encoded, and leaves the
  cursor behind the bytes of the encoding. All the reads of these lemmas stay inside the
  bytes that are stored.
\<close>

lemma length_enc_float [simp]: "length (enc_float w) = 4"
  by (simp add: enc_float_def)

lemma float_of_bytes_enc_float [simp]: "float_of_bytes (enc_float w @ rest) = w"
proof -
  have "int (le_nat (enc_int (uint w))) = uint w mod 4294967296"
    by (rule le_nat_enc_int)
  also have "\<dots> = uint w"
    using uint_bounded [of w] by simp
  finally have "int (le_nat (enc_int (uint w))) = uint w" .
  then have "(word_of_nat (le_nat (enc_int (uint w))) :: 32 word) = word_of_int (uint w)"
    by (metis of_int_of_nat_eq)
  then show ?thesis
    by (simp add: float_of_bytes_def enc_float_def)
qed

lemma length_enc_short [simp]: "length (enc_short x) = 2"
  by (simp add: enc_short_def)






lemma lengths_enc [simp]:
  "length (enc_float2 v2) = 8" "length (enc_float3 v3) = 12" "length (enc_float4 v4) = 16"
  "length (enc_char4 c4) = 4" "length (enc_weight w) = 12" "length (enc_morph_delta d) = 28"
  by (auto simp: enc_float2_def enc_float3_def enc_float4_def enc_char4_def enc_weight_def
      enc_morph_delta_def split: prod.splits)




lemma elements_Nil [simp]: "elements sz f [] = []"
  by (simp add: elements_def)











section \<open>Skipped chunks\<close>







section \<open>The primitive reads\<close>

lemma fread_min:
  "fread dst n File =
     (take n (drop (position File) (contents File)) @
        drop (min n (length (contents File) - position File)) dst,
      File\<lparr>position := position File + min n (length (contents File) - position File)\<rparr>)"
  by (simp add: fread_def Let_def min.commute)

lemma fread_enough:
  assumes "position File + n \<le> length (contents File)" "length dst = n"
  shows "fread dst n File =
     (take n (drop (position File) (contents File)), File\<lparr>position := position File + n\<rparr>)"
proof -
  from assms(1) have "min n (length (contents File) - position File) = n" by linarith
  with assms(2) show ?thesis by (simp add: fread_min)
qed

lemma fread_short:
  assumes "position File + n > length (contents File)"
  shows "fread dst n File =
     (drop (position File) (contents File) @ drop (length (contents File) - position File) dst,
      File\<lparr>position := max (position File) (length (contents File))\<rparr>)"
proof -
  from assms have m: "min n (length (contents File) - position File) =
      length (contents File) - position File" by linarith
  have x: "position File + (length (contents File) - position File) =
      max (position File) (length (contents File))" by linarith
  from assms have t: "take n (drop (position File) (contents File)) =
      drop (position File) (contents File)" by simp
  show ?thesis by (simp only: fread_min m x t)
qed

lemma fread_zeros:
  "fread (replicate n (CHR 0x00)) n File =
     (take n (drop (position File) (contents File)) @
        replicate (n - (length (contents File) - position File)) (CHR 0x00),
      File\<lparr>position := position File + min n (length (contents File) - position File)\<rparr>)"
  by (simp add: fread_min)

lemma ReadString_File_prefix:
  assumes a: "position File + 4 \<le> length (contents File)"
  shows "ReadString_File indet File =
     (let L = int_of_bytes (take 4 (drop (position File) (contents File)))
      in if L < 0 then Inl LengthError
         else Inr (take (nat L) (drop (position File + 4) (contents File)) @
               replicate (nat L - (length (contents File) - (position File + 4))) (CHR 0x00),
             File\<lparr>position := min (position File + 4 + nat L) (length (contents File))\<rparr>))"
proof -
  define F where "F = File\<lparr>position := position File + 4\<rparr>"
  from a have g: "fread (uninitialised indet 4) 4 File =
      (take 4 (drop (position File) (contents File)), F)"
    unfolding F_def by (intro fread_enough) simp_all
  have p: "position F = position File + 4" "contents F = contents File"
    by (simp_all add: F_def)
  have m: "position File + 4 + min k (length (contents File) - (position File + 4)) =
      min (position File + 4 + k) (length (contents File))" for k
    using a by linarith
  have e: "F\<lparr>position := k\<rparr> = File\<lparr>position := k\<rparr>" for k
    by (simp add: F_def)
  show ?thesis
    unfolding ReadString_File_def g
    by (simp add: Let_def fread_zeros p m e)
qed

text \<open>
  C1 (as amended). No primitive read looks at the number of bytes that remain, and none
  fails for a lack of bytes. When enough bytes remain, a read from memory returns exactly
  the bytes of the buffer and moves the cursor by the size read (\<open>4 + L\<close> for a string with
  the length prefix \<open>L \<ge> 0\<close>), and a read from a file returns exactly the bytes of the file
  and moves the position likewise. The only failure of a string read is the length error
  of the resize when the prefix is negative. A read from a file with fewer bytes left than
  asked for reports nothing: \<^verbatim>\<open>ReadStruct\<close> stores the bytes that are left over the start
  of the destination and keeps the rest of it; the string reads resize the string to the
  length asked for, whatever is left in the file, and return the bytes that are left
  followed by zero bytes. (Nothing is stated here about a read from memory that needs more
  bytes than the buffer has, nor about a string read from a file with fewer than four bytes
  left for the prefix.)
\<close>

theorem primitive_reads_unchecked:
  "(0 \<le> Offset \<and> 0 \<le> Size \<and> Offset + Size \<le> int (length buf) \<longrightarrow>
      ReadStruct (buffer_memory ext buf) Offset Size =
        (take (nat Size) (drop (nat Offset) buf), Offset + Size)) \<and>
   (0 \<le> Offset \<and> 0 \<le> L \<and> Offset + 4 + L \<le> int (length buf) \<and>
      int_of_bytes (take 4 (drop (nat Offset) buf)) = L \<longrightarrow>
      ReadString (buffer_memory ext buf) Offset =
        Inr (take (nat L) (drop (nat Offset + 4) buf), Offset + 4 + L)) \<and>
   (0 \<le> Offset \<and> Offset + 4 \<le> int (length buf) \<and>
      int_of_bytes (take 4 (drop (nat Offset) buf)) < 0 \<longrightarrow>
      ReadString (buffer_memory ext buf) Offset = Inl LengthError) \<and>
   (position File + n \<le> length (contents File) \<and> length dst = n \<longrightarrow>
      ReadStruct_File dst File n =
        (take n (drop (position File) (contents File)),
         File\<lparr>position := position File + n\<rparr>)) \<and>
   (position File + n > length (contents File) \<and> length dst = n \<longrightarrow>
      ReadStruct_File dst File n =
        (drop (position File) (contents File) @
           drop (length (contents File) - position File) dst,
         File\<lparr>position := max (position File) (length (contents File))\<rparr>)) \<and>
   ReadString_File_len File n =
     (take n (drop (position File) (contents File)) @
        replicate (n - (length (contents File) - position File)) (CHR 0x00),
      File\<lparr>position := position File + min n (length (contents File) - position File)\<rparr>) \<and>
   (position File + 4 \<le> length (contents File) \<and> 0 \<le> L \<and>
      int_of_bytes (take 4 (drop (position File) (contents File))) = L \<longrightarrow>
      ReadString_File indet File =
        Inr (take (nat L) (drop (position File + 4) (contents File)) @
               replicate (nat L - (length (contents File) - (position File + 4))) (CHR 0x00),
             File\<lparr>position := min (position File + 4 + nat L) (length (contents File))\<rparr>)) \<and>
   (position File + 4 \<le> length (contents File) \<and>
      int_of_bytes (take 4 (drop (position File) (contents File))) < 0 \<longrightarrow>
      ReadString_File indet File = Inl LengthError)"
proof (intro conjI impI)
  assume a: "0 \<le> Offset \<and> 0 \<le> Size \<and> Offset + Size \<le> int (length buf)"
  then have "nat Offset + nat Size \<le> length buf" by linarith
  with a show "ReadStruct (buffer_memory ext buf) Offset Size =
        (take (nat Size) (drop (nat Offset) buf), Offset + Size)"
    by (simp add: ReadStruct_def bytes_at_in_buffer)
next
  assume a: "0 \<le> Offset \<and> 0 \<le> L \<and> Offset + 4 + L \<le> int (length buf) \<and>
      int_of_bytes (take 4 (drop (nat Offset) buf)) = L"
  then have 1: "nat Offset + 4 \<le> length buf" and 2: "nat (Offset + 4) + nat L \<le> length buf"
    and 3: "nat (Offset + 4) = nat Offset + 4"
    by linarith+
  from a 1 have "bytes_at (buffer_memory ext buf) Offset 4 = take 4 (drop (nat Offset) buf)"
    by (simp add: bytes_at_in_buffer)
  moreover from a 2 have "bytes_at (buffer_memory ext buf) (Offset + 4) (nat L) =
      take (nat L) (drop (nat (Offset + 4)) buf)"
    by (intro bytes_at_in_buffer) auto
  ultimately show "ReadString (buffer_memory ext buf) Offset =
        Inr (take (nat L) (drop (nat Offset + 4) buf), Offset + 4 + L)"
    using a 3 by (simp add: ReadString_def Let_def)
next
  assume a: "0 \<le> Offset \<and> Offset + 4 \<le> int (length buf) \<and>
      int_of_bytes (take 4 (drop (nat Offset) buf)) < 0"
  then have "nat Offset + 4 \<le> length buf" by linarith
  with a have "bytes_at (buffer_memory ext buf) Offset 4 = take 4 (drop (nat Offset) buf)"
    by (simp add: bytes_at_in_buffer)
  with a show "ReadString (buffer_memory ext buf) Offset = Inl LengthError"
    by (simp add: ReadString_def Let_def)
next
  assume "position File + n \<le> length (contents File) \<and> length dst = n"
  then show "ReadStruct_File dst File n =
        (take n (drop (position File) (contents File)),
         File\<lparr>position := position File + n\<rparr>)"
    by (simp add: ReadStruct_File_def fread_enough)
next
  assume "position File + n > length (contents File) \<and> length dst = n"
  then show "ReadStruct_File dst File n =
        (drop (position File) (contents File) @
           drop (length (contents File) - position File) dst,
         File\<lparr>position := max (position File) (length (contents File))\<rparr>)"
    by (simp add: ReadStruct_File_def fread_short)
next
  show "ReadString_File_len File n =
     (take n (drop (position File) (contents File)) @
        replicate (n - (length (contents File) - position File)) (CHR 0x00),
      File\<lparr>position := position File + min n (length (contents File) - position File)\<rparr>)"
    by (simp add: ReadString_File_len_def fread_zeros)
next
  assume a: "position File + 4 \<le> length (contents File) \<and> 0 \<le> L \<and>
      int_of_bytes (take 4 (drop (position File) (contents File))) = L"
  then have "position File + 4 \<le> length (contents File)" by simp
  from ReadString_File_prefix [OF this, of indet] a
  show "ReadString_File indet File =
        Inr (take (nat L) (drop (position File + 4) (contents File)) @
               replicate (nat L - (length (contents File) - (position File + 4))) (CHR 0x00),
             File\<lparr>position := min (position File + 4 + nat L) (length (contents File))\<rparr>)"
    by (simp add: Let_def)
next
  assume a: "position File + 4 \<le> length (contents File) \<and>
      int_of_bytes (take 4 (drop (position File) (contents File))) < 0"
  then have "position File + 4 \<le> length (contents File)" by simp
  from ReadString_File_prefix [OF this, of indet] a
  show "ReadString_File indet File = Inl LengthError"
    by (simp add: Let_def)
qed

theorem primitive_reads_unchecked_witness:
  "ReadStruct (buffer_memory (\<lambda>i. CHR ''x'') (enc_int 3 @ ''abc'')) 0 4 =
     (enc_int 3, 4) \<and>
   ReadString (buffer_memory (\<lambda>i. CHR ''x'') (enc_int 3 @ ''abc'')) 0 = Inr (''abc'', 7) \<and>
   ReadString (buffer_memory (\<lambda>i. CHR ''x'') (enc_int (- 2) @ ''abc'')) 0 = Inl LengthError \<and>
   ReadStruct_File ''wxyz'' \<lparr>contents = ''abcdef'', position = 1\<rparr> 4 =
     (''bcde'', \<lparr>contents = ''abcdef'', position = 5\<rparr>) \<and>
   ReadStruct_File ''wxyz'' \<lparr>contents = ''ab'', position = 0\<rparr> 4 =
     (''abyz'', \<lparr>contents = ''ab'', position = 2\<rparr>) \<and>
   ReadString_File_len \<lparr>contents = ''UEFOR'', position = 0\<rparr> 8 =
     (''UEFOR'' @ [CHR 0x00, CHR 0x00, CHR 0x00], \<lparr>contents = ''UEFOR'', position = 5\<rparr>) \<and>
   ReadString_File (\<lambda>k. CHR 0xCD) \<lparr>contents = enc_int 3 @ ''abcd'', position = 0\<rparr> =
     Inr (''abc'', \<lparr>contents = enc_int 3 @ ''abcd'', position = 7\<rparr>) \<and>
   ReadString_File (\<lambda>k. CHR 0xCD) \<lparr>contents = enc_int 5 @ ''ab'', position = 0\<rparr> =
     Inr (''ab'' @ [CHR 0x00, CHR 0x00, CHR 0x00],
          \<lparr>contents = enc_int 5 @ ''ab'', position = 6\<rparr>) \<and>
   ReadString_File (\<lambda>k. CHR 0xCD) \<lparr>contents = enc_int (- 2) @ ''ab'', position = 0\<rparr> =
     Inl LengthError"
proof -
  have i: "int_of_bytes (enc_int 3) = 3" "int_of_bytes (enc_int 5) = 5"
    "int_of_bytes (enc_int (- 2)) = - 2"
    by (simp_all add: int_of_bytes_enc_int')
  note A = primitive_reads_unchecked
    [where Offset = 0 and Size = 4 and L = 3 and ext = "\<lambda>i. CHR ''x''"
       and buf = "enc_int 3 @ ''abc''"
       and File = "\<lparr>contents = ''abcdef'', position = 1\<rparr>" and n = 4 and dst = "''wxyz''"
       and indet = "\<lambda>k. CHR 0xCD"]
  note B = primitive_reads_unchecked
    [where Offset = 0 and Size = 4 and L = 3 and ext = "\<lambda>i. CHR ''x''"
       and buf = "enc_int (- 2) @ ''abc''"
       and File = "\<lparr>contents = ''ab'', position = 0\<rparr>" and n = 4 and dst = "''wxyz''"
       and indet = "\<lambda>k. CHR 0xCD"]
  note C = primitive_reads_unchecked
    [where Offset = 0 and Size = 4 and L = 3 and ext = "\<lambda>i. CHR ''x''"
       and buf = "enc_int 3 @ ''abc''"
       and File = "\<lparr>contents = enc_int 3 @ ''abcd'', position = 0\<rparr>" and n = 4
       and dst = "''wxyz''" and indet = "\<lambda>k. CHR 0xCD"]
  note D = primitive_reads_unchecked
    [where Offset = 0 and Size = 4 and L = 5 and ext = "\<lambda>i. CHR ''x''"
       and buf = "enc_int 3 @ ''abc''"
       and File = "\<lparr>contents = enc_int 5 @ ''ab'', position = 0\<rparr>" and n = 4
       and dst = "''wxyz''" and indet = "\<lambda>k. CHR 0xCD"]
  note E = primitive_reads_unchecked
    [where Offset = 0 and Size = 4 and L = 5 and ext = "\<lambda>i. CHR ''x''"
       and buf = "enc_int 3 @ ''abc''"
       and File = "\<lparr>contents = enc_int (- 2) @ ''ab'', position = 0\<rparr>" and n = 4
       and dst = "''wxyz''" and indet = "\<lambda>k. CHR 0xCD"]
  note F = primitive_reads_unchecked
    [where Offset = 0 and Size = 4 and L = 5 and ext = "\<lambda>i. CHR ''x''"
       and buf = "enc_int 3 @ ''abc''"
       and File = "\<lparr>contents = ''UEFOR'', position = 0\<rparr>" and n = 8
       and dst = "''wxyz''" and indet = "\<lambda>k. CHR 0xCD"]
  from A have a1: "ReadStruct (buffer_memory (\<lambda>i. CHR ''x'') (enc_int 3 @ ''abc'')) 0 4 =
     (enc_int 3, 4)"
    by simp
  from A have a2: "ReadString (buffer_memory (\<lambda>i. CHR ''x'') (enc_int 3 @ ''abc'')) 0 =
      Inr (''abc'', 7)"
    by (simp add: i)
  from B have a3: "ReadString (buffer_memory (\<lambda>i. CHR ''x'') (enc_int (- 2) @ ''abc'')) 0 =
      Inl LengthError"
    by (simp add: i)
  from A have a4: "ReadStruct_File ''wxyz'' \<lparr>contents = ''abcdef'', position = 1\<rparr> 4 =
     (''bcde'', \<lparr>contents = ''abcdef'', position = 5\<rparr>)"
    by simp
  from B have a5: "ReadStruct_File ''wxyz'' \<lparr>contents = ''ab'', position = 0\<rparr> 4 =
     (''abyz'', \<lparr>contents = ''ab'', position = 2\<rparr>)"
    by simp
  from F have a6: "ReadString_File_len \<lparr>contents = ''UEFOR'', position = 0\<rparr> 8 =
     (''UEFOR'' @ [CHR 0x00, CHR 0x00, CHR 0x00], \<lparr>contents = ''UEFOR'', position = 5\<rparr>)"
    by (simp add: numeral_eq_Suc)
  from C have a7: "ReadString_File (\<lambda>k. CHR 0xCD)
      \<lparr>contents = enc_int 3 @ ''abcd'', position = 0\<rparr> =
     Inr (''abc'', \<lparr>contents = enc_int 3 @ ''abcd'', position = 7\<rparr>)"
    by (simp add: i)
  from D have a8: "ReadString_File (\<lambda>k. CHR 0xCD)
      \<lparr>contents = enc_int 5 @ ''ab'', position = 0\<rparr> =
     Inr (''ab'' @ [CHR 0x00, CHR 0x00, CHR 0x00],
          \<lparr>contents = enc_int 5 @ ''ab'', position = 6\<rparr>)"
    by (simp add: i numeral_eq_Suc)
  from E have a9: "ReadString_File (\<lambda>k. CHR 0xCD)
      \<lparr>contents = enc_int (- 2) @ ''ab'', position = 0\<rparr> = Inl LengthError"
    by (simp add: i)
  from a1 a2 a3 a4 a5 a6 a7 a8 a9 show ?thesis
    by (intro conjI)
qed

text \<open>
  C1 as stated fails: with a buffer of four bytes that holds only the length prefix 2,
  the string read does not fail; it returns two bytes from beyond the buffer and leaves
  the cursor at 6. A four-byte read on a buffer of two bytes likewise returns.
\<close>

theorem truncated_read_counterexample:
  "ReadString (buffer_memory (\<lambda>i. CHR ''x'') [CHR 0x02, CHR 0x00, CHR 0x00, CHR 0x00]) 0 =
     Inr (''xx'', 6) \<and>
   ReadStruct (buffer_memory (\<lambda>i. CHR ''x'') [CHR 0x02, CHR 0x00]) 0 4 =
     ([CHR 0x02, CHR 0x00, CHR ''x'', CHR ''x''], 4)"
  by (simp add: ReadString_def ReadStruct_def bytes_at_def buffer_memory_def int_of_bytes_def
      le_nat_def upt_conv_Cons)

section \<open>Failures of the container reader\<close>

lemma ReadPayload_negative_size:
  assumes "IsCompressed Hdr" "UncompressedSize Hdr < 0 \<or> CompressedSize Hdr < 0"
  shows "ReadPayload env Hdr File = Some (Inl BadAlloc)"
  using assms by (auto simp: ReadPayload_def Let_def)

lemma compressed_negative:
  assumes "length ident < 2147483648" "length name < 2147483648" "length ctype < 2147483648"
    and "flag \<noteq> CHR 0x00"
    and "- 2147483648 \<le> usize" "usize < 2147483648"
    and "- 2147483648 \<le> csize" "csize < 2147483648"
    and "usize < 0 \<or> csize < 0"
  shows "ReadUEFModelData_File env
           \<lparr>contents = compressed_file ident ver name flag ctype usize csize rest, position = 0\<rparr> =
         Some (Inl BadAlloc)"
proof -
  let ?File = "\<lparr>contents = compressed_file ident ver name flag ctype usize csize rest,
     position = 0\<rparr>"
  have r: "remaining ?File = compressed_file ident ver name flag ctype usize csize rest"
    by simp
  note h = header_compressed(1) [OF r assms(1-8), where env = env]
  show ?thesis
    unfolding h using assms(9) by (intro ReadPayload_negative_size) simp_all
qed



text \<open>
  C8 (as amended). For every compressed file with a complete header (a non-zero compression
  flag, and the two declared sizes any signed 32-bit values): when both declared sizes are
  not negative, the compression type is \<^verbatim>\<open>ZSTD\<close> and the decompression service, called
  with the declared uncompressed size as capacity and the compressed bytes read from the
  file, returns a size other than the declared one, the reader prints
  \<^verbatim>\<open>Failed to decompress data\<close> and returns the null pointer, so nothing of a model is
  returned; when both declared sizes are not negative and the compression type is not
  \<^verbatim>\<open>ZSTD\<close>, it prints \<^verbatim>\<open>Unsupported compression type\<close> and returns the null pointer.
  When a declared size is negative, the allocation of the buffers, which comes before the
  test of the compression type and before the call of the service, throws
  \<^verbatim>\<open>std::bad_alloc\<close>, whatever the compression type.
\<close>

theorem decompression_failures:
  assumes "length ident < 2147483648" "length name < 2147483648" "length ctype < 2147483648"
    and "flag \<noteq> CHR 0x00"
    and "- 2147483648 \<le> usize" "usize < 2147483648"
    and "- 2147483648 \<le> csize" "csize < 2147483648"
  shows "(0 \<le> usize \<and> 0 \<le> csize \<and> ctype = ''ZSTD'' \<and>
          fst (ZSTD_decompress env (nat usize)
            (fst (ReadStruct_File (uninitialised (indeterminate env) (nat csize))
               \<lparr>contents = rest, position = 0\<rparr> (nat csize)))) \<noteq> nat usize \<longrightarrow>
          ReadUEFModelData_File env
            \<lparr>contents = compressed_file ident ver name flag ctype usize csize rest,
             position = 0\<rparr> =
          Some (Inr ([''Failed to decompress data''], None))) \<and>
         (0 \<le> usize \<and> 0 \<le> csize \<and> ctype \<noteq> ''ZSTD'' \<longrightarrow>
          ReadUEFModelData_File env
            \<lparr>contents = compressed_file ident ver name flag ctype usize csize rest,
             position = 0\<rparr> =
          Some (Inr ([''Unsupported compression type''], None))) \<and>
         (usize < 0 \<or> csize < 0 \<longrightarrow>
          ReadUEFModelData_File env
            \<lparr>contents = compressed_file ident ver name flag ctype usize csize rest,
             position = 0\<rparr> =
          Some (Inl BadAlloc))"
proof (intro conjI impI)
  assume a: "0 \<le> usize \<and> 0 \<le> csize \<and> ctype = ''ZSTD'' \<and>
          fst (ZSTD_decompress env (nat usize)
            (fst (ReadStruct_File (uninitialised (indeterminate env) (nat csize))
               \<lparr>contents = rest, position = 0\<rparr> (nat csize)))) \<noteq> nat usize"
  then have u: "0 \<le> usize" and c: "0 \<le> csize" by simp_all
  from a compressed_decode(1) [OF assms(1-4) u assms(6) c assms(8), of env rest ver]
  show "ReadUEFModelData_File env
            \<lparr>contents = compressed_file ident ver name flag ctype usize csize rest,
             position = 0\<rparr> =
          Some (Inr ([''Failed to decompress data''], None))"
    by simp
next
  assume a: "0 \<le> usize \<and> 0 \<le> csize \<and> ctype \<noteq> ''ZSTD''"
  then have u: "0 \<le> usize" and c: "0 \<le> csize" by simp_all
  from a compressed_decode(2) [OF assms(1-4) u assms(6) c assms(8), of env ver rest]
  show "ReadUEFModelData_File env
            \<lparr>contents = compressed_file ident ver name flag ctype usize csize rest,
             position = 0\<rparr> =
          Some (Inr ([''Unsupported compression type''], None))"
    by simp
next
  assume "usize < 0 \<or> csize < 0"
  then show "ReadUEFModelData_File env
            \<lparr>contents = compressed_file ident ver name flag ctype usize csize rest,
             position = 0\<rparr> =
          Some (Inl BadAlloc)"
    by (rule compressed_negative [OF assms])
qed

theorem decompression_failures_witness:
  "fst (ZSTD_decompress example_env 100 ''abc'') = 90 \<and>
   ReadUEFModelData_File example_env
     \<lparr>contents = compressed_file ''UEMODEL'' (CHR 0x05) ''Cube'' (CHR 0x01) ''ZSTD'' 100 3 ''abc'',
      position = 0\<rparr> =
     Some (Inr ([''Failed to decompress data''], None)) \<and>
   ReadUEFModelData_File example_env
     \<lparr>contents = compressed_file ''UEMODEL'' (CHR 0x05) ''Cube'' (CHR 0x01) ''LZ4'' 100 3 ''abc'',
      position = 0\<rparr> =
     Some (Inr ([''Unsupported compression type''], None)) \<and>
   ReadUEFModelData_File example_env
     \<lparr>contents = compressed_file ''UEMODEL'' (CHR 0x05) ''Cube'' (CHR 0x01) ''ZSTD'' 100 (- 7) ''abc'',
      position = 0\<rparr> =
     Some (Inl BadAlloc)"
  using decompression_failures
      [where ident = "''UEMODEL''" and name = "''Cube''" and ctype = "''ZSTD''"
         and flag = "CHR 0x01" and usize = 100 and csize = 3 and env = example_env
         and rest = "''abc''" and ver = "CHR 0x05"]
    decompression_failures
      [where ident = "''UEMODEL''" and name = "''Cube''" and ctype = "''LZ4''"
         and flag = "CHR 0x01" and usize = 100 and csize = 3 and env = example_env
         and rest = "''abc''" and ver = "CHR 0x05"]
    decompression_failures
      [where ident = "''UEMODEL''" and name = "''Cube''" and ctype = "''ZSTD''"
         and flag = "CHR 0x01" and usize = 100 and csize = "- 7" and env = example_env
         and rest = "''abc''" and ver = "CHR 0x05"]
  by (simp add: example_env_def)

text \<open>
  C8 as stated fails. A file with the unrecognised compression type \<^verbatim>\<open>LZ4\<close> and the declared
  uncompressed size \<open>-1\<close>: the reader does not reach the test of the compression type; the
  allocation throws and no diagnostic is printed.
\<close>

theorem negative_size_counterexample:
  "ReadUEFModelData_File example_env
     \<lparr>contents = compressed_file ''UEMODEL'' (CHR 0x05) ''Cube'' (CHR 0x01) ''LZ4'' (- 1) 3 ''abc'',
      position = 0\<rparr> =
     Some (Inl BadAlloc)"
  by (rule compressed_negative) simp_all





end
